theory Spec2Isabelle
  imports Main
begin

section \<open>Strings and errors of the host language\<close>

text \<open>
  A query string is a \<^typ>\<open>string\<close>: one \<^typ>\<open>char\<close> per UTF-16 code unit, so the
  model covers the inputs whose code units are below 256 (ASCII and Latin-1, which holds
  every accented letter the lexer's identifier alphabet lists). A thrown \<open>Error\<close> is the
  left injection of a sum, carrying its message.
\<close>

datatype error = Error string | SyntaxError string | TypeError string

fun message :: "error \<Rightarrow> string" where
  "message (Error m) = m"
| "message (SyntaxError m) = m"
| "message (TypeError m) = m"

text \<open>\<open>s.startsWith(p)\<close> and \<open>s.includes(p)\<close>.\<close>

fun startsWith :: "string \<Rightarrow> string \<Rightarrow> bool" where
  "startsWith s [] = True"
| "startsWith [] (p # ps) = False"
| "startsWith (c # cs) (p # ps) = (c = p \<and> startsWith cs ps)"

fun str_includes :: "string \<Rightarrow> string \<Rightarrow> bool" where
  "str_includes [] p = startsWith [] p"
| "str_includes (c # cs) p = (startsWith (c # cs) p \<or> str_includes cs p)"

text \<open>
  \<open>s.replace(/[...]/, "")\<close> with a regular expression that has no \<open>g\<close> flag, and
  \<open>s.replace("!", "")\<close> with a one-character string pattern: only the first match is
  removed. \<open>s.replaceAll(/[...]/g, "")\<close> and \<open>s.replaceAll("/", "")\<close> remove every match.
\<close>

fun replaceFirst :: "(char \<Rightarrow> bool) \<Rightarrow> string \<Rightarrow> string" where
  "replaceFirst P [] = []"
| "replaceFirst P (c # cs) = (if P c then cs else c # replaceFirst P cs)"

definition replaceAll :: "(char \<Rightarrow> bool) \<Rightarrow> string \<Rightarrow> string" where
  "replaceAll P s = filter (\<lambda>c. \<not> P c) s"

text \<open>
  \<open>s.split(sep)\<close> for a separator string; the empty separator splits into code units.
\<close>

function splitAux :: "string \<Rightarrow> string \<Rightarrow> string \<Rightarrow> string list" where
  "splitAux sep acc s =
     (if s = [] then [rev acc]
      else if sep \<noteq> [] \<and> startsWith s sep then rev acc # splitAux sep [] (drop (length sep) s)
      else splitAux sep (hd s # acc) (tl s))"
  by pat_completeness auto
termination
  by (relation "measure (\<lambda>(sep, acc, s). length s)") auto

declare splitAux.simps [simp del]

definition split :: "string \<Rightarrow> string \<Rightarrow> string list" where
  "split s sep = (if sep = [] then map (\<lambda>c. [c]) s else splitAux sep [] s)"

text \<open>\<open>xs.join(sep)\<close>.\<close>

fun join :: "string list \<Rightarrow> string \<Rightarrow> string" where
  "join [] sep = []"
| "join [x] sep = x"
| "join (x # y # ys) sep = x @ sep @ join (y # ys) sep"

text \<open>An array read \<open>xs[i]\<close>, which is \<open>undefined\<close> out of range.\<close>

definition at :: "'a list \<Rightarrow> nat \<Rightarrow> 'a option" where
  "at xs i = (if i < length xs then Some (xs ! i) else None)"

text \<open>A value that may be \<open>undefined\<close>, inside a template literal.\<close>

fun tmpl :: "string option \<Rightarrow> string" where
  "tmpl None = ''undefined''"
| "tmpl (Some s) = s"

section \<open>Tokens and the syntax tree (parseQuery.ts)\<close>

datatype TokenType = VARIABLE | RELATION | ENTITY | AND | OR | WEIGHT_PARAM | EOF | GREP

fun tokenTypeName :: "TokenType \<Rightarrow> string" where
  "tokenTypeName VARIABLE = ''VARIABLE''"
| "tokenTypeName RELATION = ''RELATION''"
| "tokenTypeName ENTITY = ''ENTITY''"
| "tokenTypeName AND = ''AND''"
| "tokenTypeName OR = ''OR''"
| "tokenTypeName WEIGHT_PARAM = ''WEIGHT_PARAM''"
| "tokenTypeName EOF = ''EOF''"
| "tokenTypeName GREP = ''GREP''"

record Token =
  tok_type :: TokenType
  tok_value :: string
  tok_position :: nat

record SimpleQuery =
  subject :: Token
  relation :: Token
  object :: Token
  weightParam :: "Token option"
  grep :: "Token option"
  negated :: bool

datatype Operator = OpAND | OpOR

datatype ASTNode =
  SimpleQueryNode SimpleQuery
| CompoundQuery ASTNode Operator ASTNode

definition createToken :: "TokenType \<Rightarrow> string \<Rightarrow> nat \<Rightarrow> Token" where
  "createToken t v p = \<lparr>tok_type = t, tok_value = v, tok_position = p\<rparr>"

definition createSimpleQuery ::
  "Token \<Rightarrow> Token \<Rightarrow> Token \<Rightarrow> Token option \<Rightarrow> Token option \<Rightarrow> bool \<Rightarrow> SimpleQuery" where
  "createSimpleQuery s r ob w g n =
     \<lparr>subject = s, relation = r, object = ob, weightParam = w, grep = g, negated = n\<rparr>"

section \<open>The lexer\<close>

text \<open>
  The lexer closes over the immutable input and two mutable variables, \<open>position\<close> and
  \<open>currentChar\<close>; the model passes the input along and threads the two variables as a
  record.
\<close>

record lexer =
  position :: nat
  currentChar :: "char option"

definition createLexer :: "string \<Rightarrow> lexer" where
  "createLexer input =
     \<lparr>position = 0, currentChar = (if length input > 0 then Some (input ! 0) else None)\<rparr>"

definition advance :: "string \<Rightarrow> lexer \<Rightarrow> lexer" where
  "advance input st =
     (let p = position st + 1
      in \<lparr>position = p, currentChar = (if p < length input then Some (input ! p) else None)\<rparr>)"

text \<open>
  The class \<open>\s\<close> on code units below 256: tab, line feed, vertical tab, form feed,
  carriage return, space and the no-break space.
\<close>

definition isSpace :: "char \<Rightarrow> bool" where
  "isSpace c = (c \<in> set [CHR 0x09, CHR 0x0A, CHR 0x0B, CHR 0x0C, CHR 0x0D, CHR 0x20, CHR 0xA0])"

definition isLetter :: "char \<Rightarrow> bool" where
  "isLetter c = (c \<in> set ''abcdefghijklmnopqrstuvwxyzABCDEFGHIJKLMNOPQRSTUVWXYZ'')"

definition isDigit :: "char \<Rightarrow> bool" where
  "isDigit c = (c \<in> set ''0123456789'')"

text \<open>The character class of \<open>readIdentifier\<close>.\<close>

definition isIdentifierChar :: "char \<Rightarrow> bool" where
  "isIdentifierChar c =
     (isLetter c \<or> isDigit c
      \<or> c \<in> set [CHR ''_'', CHR ''$'', CHR ''<'', CHR ''>'', CHR ''.'', CHR ''='', CHR ''*'',
                  CHR ''?'', CHR ''+'', CHR ''^'', CHR ''|'', CHR ''['', CHR '']'', CHR ''('',
                  CHR '')'', CHR ''{'', CHR ''}'', CHR ''/'', CHR ''-'', CHR ''!'', CHR '':'',
                  CHR '';'', CHR '','', CHR ''@'', CHR ''#'', CHR ''%'', CHR ''&'', CHR 0x22,
                  CHR 0x27, CHR ''~'', CHR 0x60]
      \<or> c \<in> set [CHR 0xE9, CHR 0xE8, CHR 0xEA, CHR 0xEB, CHR 0xE0, CHR 0xE2, CHR 0xE4,
                  CHR 0xEE, CHR 0xEF, CHR 0xF4, CHR 0xF6, CHR 0xF9, CHR 0xFB, CHR 0xFC,
                  CHR 0xE7, CHR 0xC9, CHR 0xC8, CHR 0xCA, CHR 0xCB, CHR 0xC0, CHR 0xC2,
                  CHR 0xC4, CHR 0xCE, CHR 0xCF, CHR 0xD4, CHR 0xD6, CHR 0xD9, CHR 0xDB,
                  CHR 0xDC, CHR 0xC7])"

definition remaining :: "string \<Rightarrow> lexer \<Rightarrow> nat" where
  "remaining input st =
     (case currentChar st of None \<Rightarrow> 0 | Some c \<Rightarrow> Suc (length input - position st))"

lemma remaining_advance:
  "currentChar st = Some c \<Longrightarrow> remaining input (advance input st) < remaining input st"
  by (auto simp: remaining_def advance_def Let_def)

function skipWhitespace :: "string \<Rightarrow> lexer \<Rightarrow> lexer" where
  "skipWhitespace input st =
     (case currentChar st of
        None \<Rightarrow> st
      | Some c \<Rightarrow> if isSpace c then skipWhitespace input (advance input st) else st)"
  by pat_completeness auto
termination
  by (relation "measure (\<lambda>(input, st). remaining input st)") (auto simp: remaining_advance)

declare skipWhitespace.simps [simp del]

function readIdentifierLoop :: "string \<Rightarrow> string \<Rightarrow> lexer \<Rightarrow> string \<times> lexer" where
  "readIdentifierLoop input result st =
     (case currentChar st of
        None \<Rightarrow> (result, st)
      | Some c \<Rightarrow>
          if isIdentifierChar c then readIdentifierLoop input (result @ [c]) (advance input st)
          else (result, st))"
  by pat_completeness auto
termination
  by (relation "measure (\<lambda>(input, result, st). remaining input st)")
     (auto simp: remaining_advance)

declare readIdentifierLoop.simps [simp del]

definition readIdentifier :: "string \<Rightarrow> lexer \<Rightarrow> string \<times> lexer" where
  "readIdentifier input st = readIdentifierLoop input [] st"

definition slice :: "string \<Rightarrow> nat \<Rightarrow> nat \<Rightarrow> string" where
  "slice s a b = take (b - a) (drop a s)"

definition readToken :: "TokenType \<Rightarrow> string \<Rightarrow> lexer \<Rightarrow> error + (Token \<times> lexer)" where
  "readToken t input st =
     (let startPos = position st;
          (identifier, st') = readIdentifier input st
      in Inr (createToken t identifier startPos, st'))"

definition jump :: "string \<Rightarrow> nat \<Rightarrow> lexer \<Rightarrow> lexer" where
  "jump input n st =
     (let p = position st + n
      in \<lparr>position = p, currentChar = (if p < length input then Some (input ! p) else None)\<rparr>)"

lemma remaining_skipWhitespace: "remaining input (skipWhitespace input st) \<le> remaining input st"
proof (induction input st rule: skipWhitespace.induct)
  case (1 input st)
  show ?case
  proof (cases "currentChar st")
    case None
    then show ?thesis by (simp add: skipWhitespace.simps)
  next
    case (Some c)
    show ?thesis
    proof (cases "isSpace c")
      case True
      have "remaining input (skipWhitespace input (advance input st))
              \<le> remaining input (advance input st)"
        using 1 Some True by simp
      also have "\<dots> < remaining input st"
        using Some by (rule remaining_advance)
      finally show ?thesis
        using Some True by (simp add: skipWhitespace.simps)
    next
      case False
      then show ?thesis using Some by (simp add: skipWhitespace.simps)
    qed
  qed
qed

lemma remaining_skipWhitespace_less:
  assumes "currentChar st = Some c" "isSpace c"
  shows "remaining input (skipWhitespace input st) < remaining input st"
proof -
  have "skipWhitespace input st = skipWhitespace input (advance input st)"
    using assms by (simp add: skipWhitespace.simps)
  moreover have "remaining input (skipWhitespace input (advance input st))
                   \<le> remaining input (advance input st)"
    by (rule remaining_skipWhitespace)
  moreover have "remaining input (advance input st) < remaining input st"
    using assms(1) by (rule remaining_advance)
  ultimately show ?thesis by simp
qed

function getNextToken :: "string \<Rightarrow> lexer \<Rightarrow> error + (Token \<times> lexer)" where
  "getNextToken input st =
     (case currentChar st of
        None \<Rightarrow> Inr (createToken EOF [] (position st), st)
      | Some c \<Rightarrow>
          if isSpace c then getNextToken input (skipWhitespace input st)
          else if c = CHR ''$'' then readToken VARIABLE input st
          else if c = CHR ''r'' \<and> position st + 1 < length input
                  \<and> input ! (position st + 1) = CHR ''_''
            then readToken RELATION input st
          else if c = CHR ''!'' \<and> position st + 2 < length input
                  \<and> input ! (position st + 1) = CHR ''r''
                  \<and> input ! (position st + 2) = CHR ''_''
            then readToken RELATION input st
          else if c = CHR ''<'' \<or> c = CHR ''>'' \<or> c = CHR ''=''
            then readToken WEIGHT_PARAM input st
          else if c = CHR ''/'' then readToken GREP input st
          else if c = CHR ''A'' \<and> slice input (position st) (position st + 3) = ''AND''
            then Inr (createToken AND ''AND'' (position st), jump input 3 st)
          else if c = CHR ''O'' \<and> slice input (position st) (position st + 2) = ''OR''
            then Inr (createToken OR ''OR'' (position st), jump input 2 st)
          else if isLetter c then readToken ENTITY input st
          else Inl (Error (''Unexpected character: '' @ [c])))"
  by pat_completeness auto
termination
  by (relation "measure (\<lambda>(input, st). remaining input st)")
     (auto simp: remaining_skipWhitespace_less)

declare getNextToken.simps [simp del]

section \<open>The parser\<close>

text \<open>
  The parser closes over the lexer and one mutable variable, \<open>currentToken\<close>. Every
  \<open>throw\<close> is an \<open>Inl\<close>; a lexical error raised while the next token is fetched passes
  through \<open>eat\<close> unchanged.
\<close>

record parser =
  lex :: lexer
  currentToken :: Token

definition createParser :: "string \<Rightarrow> lexer \<Rightarrow> error + parser" where
  "createParser input l =
     (case getNextToken input l of
        Inl e \<Rightarrow> Inl e
      | Inr (t, l') \<Rightarrow> Inr \<lparr>lex = l', currentToken = t\<rparr>)"

definition eat :: "string \<Rightarrow> TokenType \<Rightarrow> parser \<Rightarrow> error + parser" where
  "eat input tokenType ps =
     (if tok_type (currentToken ps) = tokenType then
        (case getNextToken input (lex ps) of
           Inl e \<Rightarrow> Inl e
         | Inr (t, l') \<Rightarrow> Inr \<lparr>lex = l', currentToken = t\<rparr>)
      else Inl (Error (''Unexpected token: '' @ tok_value (currentToken ps)
                       @ ''. Expected type: '' @ tokenTypeName tokenType)))"

text \<open>
  \<open>simpleQuery\<close> reads its subject and its object with the same three-way test, and its
  weight and pattern tokens with the same optional step; the model names the two blocks
  \<open>operand\<close> and \<open>optionalToken\<close>.
\<close>

definition operand :: "string \<Rightarrow> string \<Rightarrow> parser \<Rightarrow> error + (Token \<times> parser)" where
  "operand input role ps =
     (if tok_type (currentToken ps) = VARIABLE then
        (case eat input VARIABLE ps of Inl e \<Rightarrow> Inl e | Inr ps' \<Rightarrow> Inr (currentToken ps, ps'))
      else if tok_type (currentToken ps) = ENTITY then
        (case eat input ENTITY ps of Inl e \<Rightarrow> Inl e | Inr ps' \<Rightarrow> Inr (currentToken ps, ps'))
      else Inl (Error (''Expected variable or entity as '' @ role)))"

definition optionalToken ::
  "string \<Rightarrow> TokenType \<Rightarrow> parser \<Rightarrow> error + (Token option \<times> parser)" where
  "optionalToken input t ps =
     (if tok_type (currentToken ps) = t then
        (case eat input t ps of Inl e \<Rightarrow> Inl e | Inr ps' \<Rightarrow> Inr (Some (currentToken ps), ps'))
      else Inr (None, ps))"

definition simpleQuery :: "string \<Rightarrow> parser \<Rightarrow> error + (SimpleQuery \<times> parser)" where
  "simpleQuery input ps0 =
     (case operand input ''subject'' ps0 of
        Inl e \<Rightarrow> Inl e
      | Inr (subj, ps1) \<Rightarrow>
          if tok_type (currentToken ps1) = RELATION then
            (let rel = currentToken ps1;
                 neg = startsWith (tok_value (currentToken ps1)) ''!''
             in case eat input RELATION ps1 of
                  Inl e \<Rightarrow> Inl e
                | Inr ps2 \<Rightarrow>
                    (case operand input ''object'' ps2 of
                       Inl e \<Rightarrow> Inl e
                     | Inr (obj, ps3) \<Rightarrow>
                         (case optionalToken input WEIGHT_PARAM ps3 of
                            Inl e \<Rightarrow> Inl e
                          | Inr (w, ps4) \<Rightarrow>
                              (case optionalToken input GREP ps4 of
                                 Inl e \<Rightarrow> Inl e
                               | Inr (g, ps5) \<Rightarrow>
                                   Inr (createSimpleQuery subj rel obj w g neg, ps5)))))
          else Inl (Error ''Expected relation''))"

text \<open>
  The lexer never moves back, and a relation token takes at least one character: a clause
  that parses consumes input, which is why the loop of \<open>expression\<close> ends.
\<close>

lemma skipWhitespace_position: "position st \<le> position (skipWhitespace input st)"
proof (induction input st rule: skipWhitespace.induct)
  case (1 input st)
  show ?case
  proof (cases "currentChar st")
    case None
    then show ?thesis by (simp add: skipWhitespace.simps)
  next
    case (Some c)
    show ?thesis
    proof (cases "isSpace c")
      case True
      have "position st \<le> position (advance input st)"
        by (simp add: advance_def Let_def)
      also have "\<dots> \<le> position (skipWhitespace input (advance input st))"
        using 1 Some True by simp
      finally show ?thesis using Some True by (simp add: skipWhitespace.simps)
    next
      case False
      then show ?thesis using Some by (simp add: skipWhitespace.simps)
    qed
  qed
qed

lemma readIdentifierLoop_position:
  "readIdentifierLoop input r st = (r', st') \<Longrightarrow> position st \<le> position st'"
proof (induction input r st rule: readIdentifierLoop.induct)
  case (1 input result st)
  show ?case
  proof (cases "currentChar st")
    case None
    then show ?thesis using "1.prems" by (simp add: readIdentifierLoop.simps)
  next
    case (Some c)
    show ?thesis
    proof (cases "isIdentifierChar c")
      case True
      have "readIdentifierLoop input (result @ [c]) (advance input st) = (r', st')"
        using "1.prems" Some True by (simp add: readIdentifierLoop.simps)
      then have "position (advance input st) \<le> position st'"
        using "1.IH" Some True by simp
      then show ?thesis by (simp add: advance_def Let_def)
    next
      case False
      then show ?thesis using "1.prems" Some by (simp add: readIdentifierLoop.simps)
    qed
  qed
qed

lemma readIdentifierLoop_strict:
  assumes "currentChar st = Some c" "isIdentifierChar c"
    and "readIdentifierLoop input r st = (r', st')"
  shows "position st < position st'"
proof -
  have "readIdentifierLoop input (r @ [c]) (advance input st) = (r', st')"
    using assms by (simp add: readIdentifierLoop.simps)
  then have "position (advance input st) \<le> position st'"
    by (rule readIdentifierLoop_position)
  then show ?thesis by (simp add: advance_def Let_def)
qed

lemma readToken_position:
  "readToken t input st = Inr (tok, st') \<Longrightarrow> position st \<le> position st'"
  by (auto simp: readToken_def readIdentifier_def Let_def split: prod.splits
           dest: readIdentifierLoop_position)

lemma readToken_type: "readToken t input st = Inr (tok, st') \<Longrightarrow> tok_type tok = t"
  by (auto simp: readToken_def Let_def createToken_def split: prod.splits)

lemma readToken_strict:
  "currentChar st = Some c \<Longrightarrow> isIdentifierChar c \<Longrightarrow> readToken t input st = Inr (tok, st')
   \<Longrightarrow> position st < position st'"
  by (auto simp: readToken_def readIdentifier_def Let_def split: prod.splits
           dest: readIdentifierLoop_strict)

lemma if_chain:
  assumes "(if b1 then x1 else if b2 then x2 else if b3 then x3 else if b4 then x4
            else if b5 then x5 else if b6 then x6 else if b7 then x7 else if b8 then x8
            else x9) = y"
  shows "(b1 \<and> x1 = y) \<or> (b2 \<and> x2 = y) \<or> (b3 \<and> x3 = y) \<or> (b4 \<and> x4 = y) \<or> (b5 \<and> x5 = y)
         \<or> (b6 \<and> x6 = y) \<or> (b7 \<and> x7 = y) \<or> (b8 \<and> x8 = y) \<or> x9 = y"
  using assms by (simp split: if_splits)

lemma getNextToken_nonspace:
  assumes "currentChar st = Some c" "\<not> isSpace c"
    and "getNextToken input st = Inr (tok, st')"
  shows "(\<exists>t. readToken t input st = Inr (tok, st')
              \<and> (t = RELATION \<longrightarrow> (c = CHR ''r'' \<or> c = CHR ''!'') \<and> position st + 1 < length input))
         \<or> (tok_type tok = AND \<and> st' = jump input 3 st)
         \<or> (tok_type tok = OR \<and> st' = jump input 2 st)"
proof -
  have eq: "getNextToken input st =
          (if c = CHR ''$'' then readToken VARIABLE input st
          else if c = CHR ''r'' \<and> position st + 1 < length input
                  \<and> input ! (position st + 1) = CHR ''_''
            then readToken RELATION input st
          else if c = CHR ''!'' \<and> position st + 2 < length input
                  \<and> input ! (position st + 1) = CHR ''r''
                  \<and> input ! (position st + 2) = CHR ''_''
            then readToken RELATION input st
          else if c = CHR ''<'' \<or> c = CHR ''>'' \<or> c = CHR ''=''
            then readToken WEIGHT_PARAM input st
          else if c = CHR ''/'' then readToken GREP input st
          else if c = CHR ''A'' \<and> slice input (position st) (position st + 3) = ''AND''
            then Inr (createToken AND ''AND'' (position st), jump input 3 st)
          else if c = CHR ''O'' \<and> slice input (position st) (position st + 2) = ''OR''
            then Inr (createToken OR ''OR'' (position st), jump input 2 st)
          else if isLetter c then readToken ENTITY input st
          else Inl (Error (''Unexpected character: '' @ [c])))"
    using assms(1,2) by (simp add: getNextToken.simps [of input st])
  have "(if c = CHR ''$'' then readToken VARIABLE input st
          else if c = CHR ''r'' \<and> position st + 1 < length input
                  \<and> input ! (position st + 1) = CHR ''_''
            then readToken RELATION input st
          else if c = CHR ''!'' \<and> position st + 2 < length input
                  \<and> input ! (position st + 1) = CHR ''r''
                  \<and> input ! (position st + 2) = CHR ''_''
            then readToken RELATION input st
          else if c = CHR ''<'' \<or> c = CHR ''>'' \<or> c = CHR ''=''
            then readToken WEIGHT_PARAM input st
          else if c = CHR ''/'' then readToken GREP input st
          else if c = CHR ''A'' \<and> slice input (position st) (position st + 3) = ''AND''
            then Inr (createToken AND ''AND'' (position st), jump input 3 st)
          else if c = CHR ''O'' \<and> slice input (position st) (position st + 2) = ''OR''
            then Inr (createToken OR ''OR'' (position st), jump input 2 st)
          else if isLetter c then readToken ENTITY input st
          else Inl (Error (''Unexpected character: '' @ [c]))) = Inr (tok, st')"
    using assms(3) unfolding eq .
  from if_chain [OF this] show ?thesis
    by (elim disjE conjE) (auto simp: createToken_def)
qed

lemma getNextToken_RELATION:
  "getNextToken input st = Inr (tok, st') \<Longrightarrow> tok_type tok = RELATION
   \<Longrightarrow> position st < position st' \<and> position st < length input"
proof (induction input st rule: getNextToken.induct)
  case (1 input st)
  show ?case
  proof (cases "currentChar st")
    case None
    then show ?thesis using "1.prems" by (auto simp: getNextToken.simps createToken_def)
  next
    case (Some c)
    show ?thesis
    proof (cases "isSpace c")
      case True
      have "getNextToken input (skipWhitespace input st) = Inr (tok, st')"
        using "1.prems" Some True by (simp add: getNextToken.simps)
      then have "position (skipWhitespace input st) < position st'
                 \<and> position (skipWhitespace input st) < length input"
        using "1.IH" "1.prems"(2) Some True by simp
      then show ?thesis using skipWhitespace_position [of st input] by simp
    next
      case False
      have r: "isIdentifierChar (CHR ''r'')" "isIdentifierChar (CHR ''!'')"
        by (simp_all add: isIdentifierChar_def isLetter_def)
      from getNextToken_nonspace [OF Some False "1.prems"(1)] "1.prems"(2)
      obtain t where t: "readToken t input st = Inr (tok, st')"
        "t = RELATION \<longrightarrow> (c = CHR ''r'' \<or> c = CHR ''!'') \<and> position st + 1 < length input"
        by auto
      from readToken_type [OF t(1)] "1.prems"(2) have "t = RELATION" by simp
      with t(2) have c: "c = CHR ''r'' \<or> c = CHR ''!''" "position st + 1 < length input"
        by simp_all
      from c(1) r have "isIdentifierChar c" by auto
      from readToken_strict [OF Some this t(1)] c(2) show ?thesis by simp
    qed
  qed
qed

lemma getNextToken_position:
  "getNextToken input st = Inr (tok, st') \<Longrightarrow> position st \<le> position st'"
proof (induction input st rule: getNextToken.induct)
  case (1 input st)
  show ?case
  proof (cases "currentChar st")
    case None
    then show ?thesis using "1.prems" by (simp add: getNextToken.simps)
  next
    case (Some c)
    show ?thesis
    proof (cases "isSpace c")
      case True
      have "getNextToken input (skipWhitespace input st) = Inr (tok, st')"
        using "1.prems" Some True by (simp add: getNextToken.simps)
      then have "position (skipWhitespace input st) \<le> position st'"
        using "1.IH" Some True by simp
      then show ?thesis using skipWhitespace_position [of st input] by simp
    next
      case False
      from getNextToken_nonspace [OF Some False "1.prems"(1)]
      show ?thesis
        by (auto simp: jump_def Let_def dest: readToken_position)
    qed
  qed
qed

lemma eat_position: "eat input t ps = Inr ps' \<Longrightarrow> position (lex ps) \<le> position (lex ps')"
  by (auto simp: eat_def split: if_splits sum.splits dest: getNextToken_position)

lemma eat_RELATION:
  "eat input t ps = Inr ps' \<Longrightarrow> tok_type (currentToken ps') = RELATION
   \<Longrightarrow> position (lex ps) < position (lex ps') \<and> position (lex ps) < length input"
  by (auto simp: eat_def split: if_splits sum.splits dest: getNextToken_RELATION)

lemma operand_position:
  "operand input role ps = Inr (t, ps') \<Longrightarrow> position (lex ps) \<le> position (lex ps')"
  by (auto simp: operand_def split: if_splits sum.splits dest: eat_position)

lemma operand_RELATION:
  "operand input role ps = Inr (t, ps') \<Longrightarrow> tok_type (currentToken ps') = RELATION
   \<Longrightarrow> position (lex ps) < position (lex ps') \<and> position (lex ps) < length input"
  by (auto simp: operand_def split: if_splits sum.splits dest: eat_RELATION)

lemma optionalToken_position:
  "optionalToken input t ps = Inr (r, ps') \<Longrightarrow> position (lex ps) \<le> position (lex ps')"
  by (auto simp: optionalToken_def split: if_splits sum.splits dest: eat_position)

lemma simpleQuery_position:
  assumes "simpleQuery input ps = Inr (q, ps')"
  shows "position (lex ps) < position (lex ps') \<and> position (lex ps) < length input"
proof -
  from assms obtain subj ps1 ps2 obj ps3 w ps4 g where
    a: "operand input ''subject'' ps = Inr (subj, ps1)"
    and b: "tok_type (currentToken ps1) = RELATION"
    and c: "eat input RELATION ps1 = Inr ps2"
    and d: "operand input ''object'' ps2 = Inr (obj, ps3)"
    and e: "optionalToken input WEIGHT_PARAM ps3 = Inr (w, ps4)"
    and f: "optionalToken input GREP ps4 = Inr (g, ps')"
    by (auto simp: simpleQuery_def Let_def split: sum.splits if_splits)
  from operand_RELATION [OF a b] eat_position [OF c] operand_position [OF d]
    optionalToken_position [OF e] optionalToken_position [OF f]
  show ?thesis by linarith
qed

text \<open>
  The \<open>while\<close> loop of \<open>expression\<close>, with the tree built so far. Its guard admits
  \<open>AND\<close> and \<open>OR\<close> only, so the \<open>if\<close> / \<open>else if\<close> of its body has no third case.
\<close>

function expressionLoop :: "string \<Rightarrow> ASTNode \<Rightarrow> parser \<Rightarrow> error + (ASTNode \<times> parser)" where
  "expressionLoop input node ps =
     (if tok_type (currentToken ps) = AND then
        (case eat input AND ps of
           Inl e \<Rightarrow> Inl e
         | Inr ps1 \<Rightarrow>
             (case simpleQuery input ps1 of
                Inl e \<Rightarrow> Inl e
              | Inr (q, ps2) \<Rightarrow>
                  expressionLoop input (CompoundQuery node OpAND (SimpleQueryNode q)) ps2))
      else if tok_type (currentToken ps) = OR then
        (case eat input OR ps of
           Inl e \<Rightarrow> Inl e
         | Inr ps1 \<Rightarrow>
             (case simpleQuery input ps1 of
                Inl e \<Rightarrow> Inl e
              | Inr (q, ps2) \<Rightarrow>
                  expressionLoop input (CompoundQuery node OpOR (SimpleQueryNode q)) ps2))
      else Inr (node, ps))"
  by pat_completeness auto
termination
proof (relation "measure (\<lambda>(input, node, ps). length input - position (lex ps))")
  show "wf (measure (\<lambda>(input, node, ps). length input - position (lex ps)))" by simp
next
  fix input node ps ps1 x q ps2
  assume "eat input AND ps = Inr ps1" "simpleQuery input ps1 = Inr x" "(q, ps2) = x"
  then show "((input, CompoundQuery node OpAND (SimpleQueryNode q), ps2), (input, node, ps))
             \<in> measure (\<lambda>(input, node, ps). length input - position (lex ps))"
    using eat_position [of input AND ps ps1] simpleQuery_position [of input ps1 q ps2]
    by auto
next
  fix input node ps ps1 x q ps2
  assume "eat input OR ps = Inr ps1" "simpleQuery input ps1 = Inr x" "(q, ps2) = x"
  then show "((input, CompoundQuery node OpOR (SimpleQueryNode q), ps2), (input, node, ps))
             \<in> measure (\<lambda>(input, node, ps). length input - position (lex ps))"
    using eat_position [of input OR ps ps1] simpleQuery_position [of input ps1 q ps2]
    by auto
qed

declare expressionLoop.simps [simp del]

definition expression :: "string \<Rightarrow> parser \<Rightarrow> error + (ASTNode \<times> parser)" where
  "expression input ps =
     (case simpleQuery input ps of
        Inl e \<Rightarrow> Inl e
      | Inr (q, ps') \<Rightarrow> expressionLoop input (SimpleQueryNode q) ps')"

definition parse :: "string \<Rightarrow> parser \<Rightarrow> error + ASTNode" where
  "parse input ps =
     (case expression input ps of
        Inl e \<Rightarrow> Inl e
      | Inr (result, ps') \<Rightarrow>
          if tok_type (currentToken ps') \<noteq> EOF
          then Inl (Error ''Unexpected token after parsing expression'')
          else Inr result)"

definition parseQuery :: "string \<Rightarrow> error + ASTNode" where
  "parseQuery queryString =
     (case createParser queryString (createLexer queryString) of
        Inl e \<Rightarrow> Inl e
      | Inr parser \<Rightarrow> parse queryString parser)"

fun astToString :: "ASTNode \<Rightarrow> string" where
  "astToString (SimpleQueryNode q) =
     tok_value (subject q) @ '' '' @ tok_value (relation q) @ '' '' @ tok_value (object q)"
| "astToString (CompoundQuery l op r) =
     ''('' @ astToString l @ '' '' @ (case op of OpAND \<Rightarrow> ''AND'' | OpOR \<Rightarrow> ''OR'') @ '' ''
        @ astToString r @ '')''"

section \<open>The graph client and the relation catalog (evaluateQuery.ts)\<close>

text \<open>
  Three things the evaluator uses lie outside the repository's sources and are parameters
  of the model, gathered in one record:
  \<^item> \<open>relationsData\<close>, the relation catalog read from \<open>relations_dict.json\<close>;
  \<^item> \<open>fetchJson\<close>, the remote lookup: the decoded response for a URL, with the
    \<open>?? []\<close> defaults applied, or \<open>None\<close> when the request or the decoding fails;
  \<^item> \<open>newRegExp\<close>, the host's regular-expression constructor: for a pattern source
    either the thrown syntax error or the compiled expression's \<open>test\<close>.

  The upstream is taken to answer the same URL the same way during one evaluation, so the
  five-minute response cache of \<open>handleAPICall\<close> is transparent and is not modelled; the
  concurrent lookups of \<open>Promise.all\<close> are taken in the order of the array they map over.
  Numbers are integers.
\<close>

record Node =
  node_id :: int
  node_name :: string
  node_type :: int
  node_w :: int

record Relation =
  rel_id :: int
  rel_node1 :: int
  rel_node2 :: int
  rel_type :: int
  rel_w :: int

record ApiData =
  nodes :: "Node list"
  relations :: "Relation list"

text \<open>
  Modelled from the spec: the entries of the relation catalog (\<open>relations_dict.json\<close> is
  not among the sources); an entry holds a numeric id and a code.
\<close>

record CatalogEntry =
  entry_id :: int
  entry_code :: string

record world =
  relationsData :: "CatalogEntry list"
  fetchJson :: "string \<Rightarrow> ApiData option"
  newRegExp :: "string \<Rightarrow> error + (string \<Rightarrow> bool)"

text \<open>
  A binding is declared as \<open>{ name: string; value: string[] }\<close>. An element can still be
  \<open>undefined\<close> at run time (the projection at the end of \<open>evaluateQuery\<close> stores what
  a destructuring read), so an element is a \<open>string option\<close> with \<open>None\<close> for
  \<open>undefined\<close>; a template literal prints it with \<open>tmpl\<close>.
\<close>

type_synonym jsstring = "string option"

record Variable =
  var_name :: string
  var_value :: "jsstring list"

type_synonym VariableContents = "Variable list"

definition LIMIT :: int where "LIMIT = 900"
definition MIN_WEIGHT :: int where "MIN_WEIGHT = 30"
definition MAX_WEIGHT :: int where "MAX_WEIGHT = 999999"

text \<open>\<open>minWeight\<close> and \<open>maxWeight\<close> have the type \<open>string | number\<close>.\<close>

datatype weight = Num int | Str string

text \<open>The decimal text of an integer, as a template literal prints a number.\<close>

definition digitChar :: "int \<Rightarrow> char" where
  "digitChar d = ''0123456789'' ! nat d"

function showDigits :: "int \<Rightarrow> string" where
  "showDigits n =
     (if n < 10 then [digitChar n] else showDigits (n div 10) @ [digitChar (n mod 10)])"
  by pat_completeness auto
termination
  by (relation "measure nat") auto

declare showDigits.simps [simp del]

definition showInt :: "int \<Rightarrow> string" where
  "showInt i = (if i < 0 then ''-'' @ showDigits (- i) else showDigits i)"

fun showWeight :: "weight \<Rightarrow> string" where
  "showWeight (Num n) = showInt n"
| "showWeight (Str s) = s"

definition handleAPICall :: "world \<Rightarrow> string \<Rightarrow> ApiData" where
  "handleAPICall w apiUrl =
     (case fetchJson w apiUrl of
        Some data \<Rightarrow> data
      | None \<Rightarrow> \<lparr>nodes = [], relations = []\<rparr>)"

text \<open>The URL of a \<open>relations/from\<close> or \<open>relations/to\<close> request, and of the node list.\<close>

definition relationsUrl :: "string \<Rightarrow> string \<Rightarrow> int \<Rightarrow> weight \<Rightarrow> weight \<Rightarrow> string" where
  "relationsUrl direction entity relationId minWeight maxWeight =
     ''https://jdm-api.demo.lirmm.fr/v0/relations/'' @ direction @ ''/'' @ entity
       @ ''?types_ids='' @ showInt relationId
       @ ''&min_weight='' @ showWeight minWeight
       @ ''&max_weight='' @ showWeight maxWeight
       @ ''&limit='' @ showInt LIMIT @ ''&type=1''"

definition nodesUrl :: string where
  "nodesUrl = ''https://jdm-api.demo.lirmm.fr/v0/nodes?type=1&limit='' @ showInt LIMIT"

text \<open>
  \<open>new Map(nodes.map(node => [node.id, node.name]))\<close>: a later node with the same id
  replaces an earlier one.
\<close>

definition nodeMap :: "Node list \<Rightarrow> int \<Rightarrow> string option" where
  "nodeMap ns = map_of (rev (map (\<lambda>n. (node_id n, node_name n)) ns))"

text \<open>\<open>[...new Set(xs)]\<close>: the first occurrence of each element, in order.\<close>

fun uniq :: "'a list \<Rightarrow> 'a list" where
  "uniq [] = []"
| "uniq (x # xs) = x # uniq (filter (\<lambda>y. y \<noteq> x) xs)"

text \<open>
  An optional filter, \<open>if (regex) xs = xs.filter(x => regex.test(x))\<close>, on strings and
  on binding values (\<open>test\<close> converts its argument to a string).
\<close>

definition regexFilter :: "(string \<Rightarrow> bool) option \<Rightarrow> string list \<Rightarrow> string list" where
  "regexFilter regex xs = (case regex of None \<Rightarrow> xs | Some test \<Rightarrow> filter test xs)"

definition regexFilterValues :: "(string \<Rightarrow> bool) option \<Rightarrow> jsstring list \<Rightarrow> jsstring list" where
  "regexFilterValues regex xs =
     (case regex of None \<Rightarrow> xs | Some test \<Rightarrow> filter (\<lambda>x. test (tmpl x)) xs)"

text \<open>The names of the nodes of type 1 in a response.\<close>

definition lexicalNames :: "ApiData \<Rightarrow> string list" where
  "lexicalNames data = map node_name (filter (\<lambda>node. node_type node = 1) (nodes data))"

definition getRelatedEntities ::
  "world \<Rightarrow> jsstring \<Rightarrow> int \<Rightarrow> weight \<Rightarrow> weight \<Rightarrow> (string \<Rightarrow> bool) option \<Rightarrow> string list" where
  "getRelatedEntities w val relationId minWeight maxWeight regex =
     (let data = handleAPICall w (relationsUrl ''from'' (tmpl val) relationId minWeight maxWeight);
          relatedEntities =
            List.map_filter (\<lambda>rel. nodeMap (nodes data) (rel_node2 rel))
              (filter (\<lambda>rel. rel_type rel = relationId) (relations data))
      in regexFilter regex relatedEntities)"

text \<open>The encoding of a pair, \<open>`${leftValue},${rightValue}`\<close>.\<close>

definition pair :: "jsstring \<Rightarrow> jsstring \<Rightarrow> jsstring" where
  "pair l r = Some (tmpl l @ '','' @ tmpl r)"

definition processVariableToVariableRelation ::
  "world \<Rightarrow> string \<Rightarrow> jsstring list \<Rightarrow> string \<Rightarrow> jsstring list \<Rightarrow> int \<Rightarrow> weight \<Rightarrow> weight
   \<Rightarrow> (string \<Rightarrow> bool) option \<Rightarrow> VariableContents" where
  "processVariableToVariableRelation w leftVarName leftVarValues rightVarName rightVarValues
       relationId minWeight maxWeight regex =
     (let resultVarName = leftVarName @ ''_'' @ rightVarName @ ''_pairs'';
          validPairs =
            concat (map (\<lambda>leftValue.
                      map (\<lambda>rightValue. pair leftValue (Some rightValue))
                        (filter (\<lambda>rightValue. Some rightValue \<in> set rightVarValues)
                           (getRelatedEntities w leftValue relationId minWeight maxWeight regex)))
                    leftVarValues)
      in [\<lparr>var_name = resultVarName, var_value = validPairs\<rparr>])"

section \<open>Evaluation of one clause\<close>

text \<open>
  The weight band of a clause (the assignments to \<open>minWeight\<close> and \<open>maxWeight\<close> at the
  head of \<open>evaluateSimpleQuery\<close>). \<open>replace(/[<>=]/, "")\<close> has no \<open>g\<close> flag.
\<close>

definition isComparison :: "char \<Rightarrow> bool" where
  "isComparison c = (c = CHR ''<'' \<or> c = CHR ''>'' \<or> c = CHR ''='')"

definition weightBand :: "SimpleQuery \<Rightarrow> weight \<times> weight" where
  "weightBand query =
     (let minWeight =
            (case weightParam query of
               None \<Rightarrow> Num MIN_WEIGHT
             | Some t \<Rightarrow>
                 if str_includes (tok_value t) ''>=''
                 then Str (replaceFirst isComparison (tok_value t)) else Num MIN_WEIGHT);
          maxWeight =
            (case weightParam query of
               None \<Rightarrow> Num MAX_WEIGHT
             | Some t \<Rightarrow>
                 if str_includes (tok_value t) ''<=''
                 then Str (replaceFirst isComparison (tok_value t)) else Num MAX_WEIGHT)
      in case weightParam query of
           None \<Rightarrow> (minWeight, maxWeight)
         | Some t \<Rightarrow>
             if replaceAll isDigit (tok_value t) = ''=''
             then (Str (replaceFirst isComparison (tok_value t)),
                   Str (replaceFirst isComparison (tok_value t)))
             else (minWeight, maxWeight))"

text \<open>The optional filter of a clause: \<open>new RegExp\<close> throws on a malformed pattern.\<close>

definition grepRegex :: "world \<Rightarrow> SimpleQuery \<Rightarrow> error + (string \<Rightarrow> bool) option" where
  "grepRegex w query =
     (case grep query of
        None \<Rightarrow> Inr None
      | Some t \<Rightarrow>
          if tok_value t = [] then Inr None
          else (case newRegExp w (replaceAll (\<lambda>c. c = CHR ''/'') (tok_value t)) of
                  Inl e \<Rightarrow> Inl e
                | Inr test \<Rightarrow> Inr (Some test)))"

text \<open>\<open>existingVariables.find((v) => v.name === x)?.value || []\<close>.\<close>

definition valuesOf :: "VariableContents \<Rightarrow> string \<Rightarrow> jsstring list" where
  "valuesOf existingVariables x =
     (case find (\<lambda>v. var_name v = x) existingVariables of
        None \<Rightarrow> []
      | Some v \<Rightarrow> var_value v)"

text \<open>
  Cases 1 and 2 of the dispatch, a variable against an entity. The two cases are the same
  code up to the direction of the request: \<open>direction\<close> is \<open>to\<close> in case 1
  (\<open>$x r word\<close>) and \<open>from\<close> in case 2 (\<open>word r $x\<close>); \<open>variable\<close> is the text of
  the variable token and \<open>entity\<close> the text of the entity token.
\<close>

definition variableAgainstEntity ::
  "world \<Rightarrow> string \<Rightarrow> string \<Rightarrow> string \<Rightarrow> bool \<Rightarrow> int \<Rightarrow> weight \<Rightarrow> weight
   \<Rightarrow> (string \<Rightarrow> bool) option \<Rightarrow> VariableContents \<Rightarrow> VariableContents" where
  "variableAgainstEntity w direction variable entity neg relationId minWeight maxWeight regex
       existingVariables =
     (let data = handleAPICall w (relationsUrl direction entity relationId minWeight maxWeight)
      in if neg then
           (let matchingValues = map Some (lexicalNames data);
                allValues = valuesOf existingVariables variable;
                newValues = filter (\<lambda>v. v \<notin> set matchingValues) allValues
            in [\<lparr>var_name = variable, var_value = regexFilterValues regex newValues\<rparr>])
         else [\<lparr>var_name = variable,
                var_value = regexFilterValues regex (map Some (lexicalNames data))\<rparr>])"

text \<open>
  Case 3, a variable against a variable. A \<open>Map\<close> keyed by the values of a bound
  variable keeps one entry per distinct key, in the order of first insertion.
\<close>

definition relatedTo ::
  "world \<Rightarrow> jsstring \<Rightarrow> int \<Rightarrow> weight \<Rightarrow> weight \<Rightarrow> string list" where
  "relatedTo w rightValue relationId minWeight maxWeight =
     lexicalNames
       (handleAPICall w (relationsUrl ''to'' (tmpl rightValue) relationId minWeight maxWeight))"

text \<open>Neither variable is bound: the scan over the node list, the same in both polarities.\<close>

definition scanAllPairs ::
  "world \<Rightarrow> int \<Rightarrow> weight \<Rightarrow> weight \<Rightarrow> (string \<Rightarrow> bool) option \<Rightarrow> jsstring list" where
  "scanAllPairs w relationId minWeight maxWeight regex =
     (let nodesData = handleAPICall w nodesUrl
      in concat (map (\<lambda>nodeName.
                   (let relationsData =
                          handleAPICall w (relationsUrl ''from'' nodeName relationId minWeight maxWeight)
                    in concat (map (\<lambda>rel.
                                 if rel_type rel = relationId then
                                   (case nodeMap (nodes nodesData) (rel_node2 rel) of
                                      None \<Rightarrow> []
                                    | Some rightName \<Rightarrow>
                                        if rightName \<noteq> []
                                           \<and> (case regex of
                                                None \<Rightarrow> True
                                              | Some test \<Rightarrow> test nodeName \<and> test rightName)
                                        then [pair (Some nodeName) (Some rightName)] else [])
                                 else [])
                               (relations relationsData))))
                 (uniq (map node_name (nodes nodesData)))))"

definition orElse :: "string \<Rightarrow> string \<Rightarrow> string" where
  "orElse a b = (if a \<noteq> [] then a else b)"

definition variableAgainstVariable ::
  "world \<Rightarrow> string \<Rightarrow> string \<Rightarrow> bool \<Rightarrow> int \<Rightarrow> weight \<Rightarrow> weight \<Rightarrow> (string \<Rightarrow> bool) option
   \<Rightarrow> VariableContents \<Rightarrow> VariableContents" where
  "variableAgainstVariable w subj obj neg relationId minWeight maxWeight regex existingVariables =
     (let leftVar = find (\<lambda>v. var_name v = subj) existingVariables;
          rightVar = find (\<lambda>v. var_name v = obj) existingVariables;
          related = (\<lambda>l. getRelatedEntities w l relationId minWeight maxWeight regex);
          relatedBack = (\<lambda>r. relatedTo w r relationId minWeight maxWeight)
      in if neg then
           (let resultVarName =
                  (case leftVar of None \<Rightarrow> subj | Some v \<Rightarrow> orElse (var_name v) subj) @ ''_''
                  @ (case rightVar of None \<Rightarrow> obj | Some v \<Rightarrow> orElse (var_name v) obj)
                  @ ''_pairs'';
                validPairs =
                  (case (leftVar, rightVar) of
                     (Some lv, Some rv) \<Rightarrow>
                       concat (map (\<lambda>leftValue.
                                 map (pair leftValue)
                                   (filter (\<lambda>rightValue.
                                              rightValue \<notin> set (map Some (related leftValue)))
                                      (var_value rv)))
                               (var_value lv))
                   | (Some lv, None) \<Rightarrow>
                       (let allRightValues = uniq (concat (map related (uniq (var_value lv))))
                        in concat (map (\<lambda>leftValue.
                                     map (\<lambda>rightValue. pair leftValue (Some rightValue))
                                       (filter (\<lambda>rightValue. rightValue \<notin> set (related leftValue))
                                          allRightValues))
                                   (var_value lv)))
                   | (None, Some rv) \<Rightarrow>
                       (let allLeftValues = uniq (concat (map relatedBack (uniq (var_value rv))))
                        in concat (map (\<lambda>leftValue.
                                     map (pair (Some leftValue))
                                       (filter (\<lambda>rightValue. leftValue \<notin> set (relatedBack rightValue))
                                          (var_value rv)))
                                   allLeftValues))
                   | (None, None) \<Rightarrow> scanAllPairs w relationId minWeight maxWeight regex)
            in [\<lparr>var_name = resultVarName, var_value = validPairs\<rparr>])
         else
           (case (leftVar, rightVar) of
              (Some lv, Some rv) \<Rightarrow>
                processVariableToVariableRelation w subj (var_value lv) obj (var_value rv)
                  relationId minWeight maxWeight regex
            | (Some lv, None) \<Rightarrow>
                [\<lparr>var_name = subj @ ''_'' @ obj @ ''_pairs'',
                  var_value =
                    concat (map (\<lambda>leftValue.
                              map (\<lambda>rightValue. pair leftValue (Some rightValue)) (related leftValue))
                            (uniq (var_value lv)))\<rparr>]
            | (None, Some rv) \<Rightarrow>
                [\<lparr>var_name = subj @ ''_'' @ obj @ ''_pairs'',
                  var_value =
                    concat (map (\<lambda>rightValue.
                              map (\<lambda>leftValue. pair (Some leftValue) rightValue)
                                (relatedBack rightValue))
                            (uniq (var_value rv)))\<rparr>]
            | (None, None) \<Rightarrow>
                [\<lparr>var_name = subj @ ''_'' @ obj @ ''_pairs'',
                  var_value = scanAllPairs w relationId minWeight maxWeight regex\<rparr>]))"

definition evaluateSimpleQuery ::
  "world \<Rightarrow> SimpleQuery \<Rightarrow> VariableContents \<Rightarrow> error + VariableContents" where
  "evaluateSimpleQuery w query existingVariables =
     (let subj = tok_value (subject query);
          obj = tok_value (object query);
          rel = replaceFirst (\<lambda>c. c = CHR ''!'') (tok_value (relation query));
          (minWeight, maxWeight) = weightBand query
      in case grepRegex w query of
           Inl e \<Rightarrow> Inl e
         | Inr regex \<Rightarrow>
             (case find (\<lambda>v. entry_code v = rel) (relationsData w) of
                None \<Rightarrow> Inl (Error (''Relation '' @ [CHR 0x22] @ rel @ [CHR 0x22] @ '' not recognized''))
              | Some entry \<Rightarrow>
                  (let relationId = entry_id entry
                   in if tok_type (subject query) = VARIABLE \<and> tok_type (object query) = ENTITY then
                        Inr (variableAgainstEntity w ''to'' subj obj (negated query) relationId
                               minWeight maxWeight regex existingVariables)
                      else if tok_type (subject query) = ENTITY \<and> tok_type (object query) = VARIABLE then
                        Inr (variableAgainstEntity w ''from'' obj subj (negated query) relationId
                               minWeight maxWeight regex existingVariables)
                      else if tok_type (subject query) = VARIABLE \<and> tok_type (object query) = VARIABLE then
                        Inr (variableAgainstVariable w subj obj (negated query) relationId
                               minWeight maxWeight regex existingVariables)
                      else Inl (Error ''Invalid API URL  or case not implemented''))))"

section \<open>Tuple reconstruction\<close>

text \<open>
  \<open>generateTuples\<close> keeps three \<open>Map\<close>s and reads variable names and pair components
  by destructuring, so a name and a component may be \<open>undefined\<close>. A \<open>Map\<close> is an
  association list in insertion order, a \<open>Set\<close> a list without repetition.
\<close>

fun mapSet :: "'k \<Rightarrow> 'v \<Rightarrow> ('k \<times> 'v) list \<Rightarrow> ('k \<times> 'v) list" where
  "mapSet k v [] = [(k, v)]"
| "mapSet k v ((k', v') # m) = (if k' = k then (k, v) # m else (k', v') # mapSet k v m)"

definition setAdd :: "'a \<Rightarrow> 'a list \<Rightarrow> 'a list" where
  "setAdd x xs = (if x \<in> set xs then xs else xs @ [x])"

text \<open>The first element of \<open>s.split(sep)\<close>, which always exists for a separator that is not empty.\<close>

definition firstPart :: "string \<Rightarrow> string \<Rightarrow> string" where
  "firstPart s sep = (case split s sep of [] \<Rightarrow> [] | x # xs \<Rightarrow> x)"

text \<open>\<open>value.map((val) => val.split(","))\<close>; reading \<open>split\<close> of \<open>undefined\<close> throws.\<close>

definition undefinedSplit :: error where
  "undefinedSplit = TypeError ''Cannot read properties of undefined (reading 'split')''"

fun splitPairs :: "jsstring list \<Rightarrow> error + string list list" where
  "splitPairs [] = Inr []"
| "splitPairs (None # vs) = Inl undefinedSplit"
| "splitPairs (Some v # vs) =
     (case splitPairs vs of Inl e \<Rightarrow> Inl e | Inr ps \<Rightarrow> Inr (split v '','' # ps))"

record tables =
  pairRelations :: "(string \<times> string list list) list"
  variableValues :: "(string \<times> jsstring list) list"
  relationGraph :: "(jsstring \<times> jsstring list) list"

text \<open>The first pass: one step for each binding.\<close>

definition collect :: "Variable \<Rightarrow> tables \<Rightarrow> error + tables" where
  "collect v t =
     (if str_includes (var_name v) ''_pairs'' then
        (let parts = split (firstPart (var_name v) ''_pairs'') ''_'';
             var1 = at parts 0;
             var2 = at parts 1;
             key = tmpl var1 @ ''_'' @ tmpl var2
         in case splitPairs (var_value v) of
              Inl e \<Rightarrow> Inl e
            | Inr pairs \<Rightarrow>
                (let graph = (if var1 \<in> set (map fst (relationGraph t)) then relationGraph t
                              else relationGraph t @ [(var1, [])]);
                     connections = (case map_of graph var1 of None \<Rightarrow> [] | Some c \<Rightarrow> c)
                 in Inr (t\<lparr>pairRelations := mapSet key pairs (pairRelations t),
                           relationGraph := mapSet var1 (setAdd var2 connections) graph\<rparr>)))
      else Inr (t\<lparr>variableValues := mapSet (var_name v) (uniq (var_value v)) (variableValues t)\<rparr>))"

fun collectAll :: "VariableContents \<Rightarrow> tables \<Rightarrow> error + tables" where
  "collectAll [] t = Inr t"
| "collectAll (v # vs) t = (case collect v t of Inl e \<Rightarrow> Inl e | Inr t' \<Rightarrow> collectAll vs t')"

definition allVariablesOf :: "(string \<times> string list list) list \<Rightarrow> jsstring list" where
  "allVariablesOf pr =
     foldl (\<lambda>acc key. (let parts = split key ''_'' in setAdd (at parts 1) (setAdd (at parts 0) acc)))
       [] (map fst pr)"

definition findConnections ::
  "jsstring list \<Rightarrow> (jsstring \<times> jsstring list) list \<Rightarrow> jsstring list \<Rightarrow> jsstring list" where
  "findConnections allVariables graph currentPath =
     (if currentPath = [] then allVariables
      else
        (let lastVar = last currentPath;
             forward =
               (case map_of graph lastVar of
                  None \<Rightarrow> []
                | Some connections \<Rightarrow> filter (\<lambda>connectedVar. connectedVar \<notin> set currentPath) connections);
             backward =
               map fst (filter (\<lambda>(var1, connections).
                                  var1 \<notin> set currentPath \<and> lastVar \<in> set connections) graph)
         in forward @ backward))"

text \<open>Every name \<open>findConnections\<close> can return.\<close>

definition graphNames :: "jsstring list \<Rightarrow> (jsstring \<times> jsstring list) list \<Rightarrow> jsstring list" where
  "graphNames allVariables graph = allVariables @ concat (map snd graph) @ map fst graph"

lemma findConnections_graphNames:
  assumes "x \<in> set (findConnections allVariables graph currentPath)"
  shows "x \<in> set (graphNames allVariables graph)"
proof (cases "currentPath = []")
  case True
  then show ?thesis using assms by (simp add: findConnections_def graphNames_def)
next
  case False
  show ?thesis
  proof (cases "map_of graph (last currentPath)")
    case None
    then show ?thesis
      using assms False by (auto simp: findConnections_def graphNames_def Let_def)
  next
    case (Some connections)
    then have "(last currentPath, connections) \<in> set graph" by (rule map_of_SomeD)
    then have "set connections \<subseteq> set (concat (map snd graph))" by force
    then show ?thesis
      using assms False Some by (auto simp: findConnections_def graphNames_def Let_def)
  qed
qed

lemma unvisited_decreases:
  assumes "x \<in> set names" "x \<notin> set path"
  shows "length (filter (\<lambda>v. v \<notin> set (path @ [x])) names) < length (filter (\<lambda>v. v \<notin> set path) names)"
proof -
  have "filter (\<lambda>v. v \<notin> set (path @ [x])) names
          = filter (\<lambda>v. v \<noteq> x) (filter (\<lambda>v. v \<notin> set path) names)"
    by (auto intro: filter_cong)
  moreover have "x \<in> set (filter (\<lambda>v. v \<notin> set path) names)"
    using assms by simp
  ultimately show ?thesis
    by (metis (mono_tags, lifting) length_filter_less)
qed

function buildChains ::
  "jsstring list \<Rightarrow> (jsstring \<times> jsstring list) list \<Rightarrow> jsstring list \<Rightarrow> jsstring list list" where
  "buildChains allVariables graph currentPath =
     (if length currentPath = length allVariables then [currentPath]
      else concat (map (\<lambda>nextVar.
                     if nextVar \<notin> set currentPath
                     then buildChains allVariables graph (currentPath @ [nextVar]) else [])
                   (findConnections allVariables graph currentPath)))"
  by pat_completeness auto
termination
proof (relation "measure (\<lambda>(allVariables, graph, currentPath).
                   length (filter (\<lambda>v. v \<notin> set currentPath) (graphNames allVariables graph)))")
  show "wf (measure (\<lambda>(allVariables, graph, currentPath).
              length (filter (\<lambda>v. v \<notin> set currentPath) (graphNames allVariables graph))))"
    by simp
next
  fix allVariables :: "jsstring list" and graph :: "(jsstring \<times> jsstring list) list"
    and currentPath x
  assume "x \<in> set (findConnections allVariables graph currentPath)" "x \<notin> set currentPath"
  then have "length (filter (\<lambda>v. v \<notin> set (currentPath @ [x])) (graphNames allVariables graph))
               < length (filter (\<lambda>v. v \<notin> set currentPath) (graphNames allVariables graph))"
    by (intro unvisited_decreases findConnections_graphNames)
  then show "((allVariables, graph, currentPath @ [x]), (allVariables, graph, currentPath))
               \<in> measure (\<lambda>(allVariables, graph, currentPath).
                    length (filter (\<lambda>v. v \<notin> set currentPath) (graphNames allVariables graph)))"
    by simp
qed

declare buildChains.simps [simp del]

definition chainOf :: "jsstring list \<Rightarrow> (jsstring \<times> jsstring list) list \<Rightarrow> jsstring list" where
  "chainOf allVariables graph =
     (case buildChains allVariables graph [] of [] \<Rightarrow> allVariables | chain # others \<Rightarrow> chain)"

text \<open>\<open>currentTuple.get(prevVar)\<close>: the stored value, or \<open>undefined\<close>.\<close>

definition tupleGet :: "(jsstring \<times> jsstring) list \<Rightarrow> jsstring \<Rightarrow> jsstring" where
  "tupleGet currentTuple k = (case map_of currentTuple k of None \<Rightarrow> None | Some v \<Rightarrow> v)"

definition potentialValues :: "tables \<Rightarrow> jsstring \<Rightarrow> jsstring list" where
  "potentialValues t currentVar =
     (case (case currentVar of None \<Rightarrow> None | Some n \<Rightarrow> map_of (variableValues t) n) of
        Some vals \<Rightarrow> vals
      | None \<Rightarrow>
          uniq (concat (map (\<lambda>(key, pairs).
                         (let parts = split key ''_''
                          in if at parts 0 = currentVar then map (\<lambda>p. at p 0) pairs
                             else if at parts 1 = currentVar then map (\<lambda>p. at p 1) pairs
                             else []))
                       (pairRelations t))))"

text \<open>
  The test of one candidate against one earlier variable of the chain: the forward table
  when it exists, otherwise the backward table when it exists, otherwise nothing.
\<close>

definition pairAllowed :: "tables \<Rightarrow> jsstring \<Rightarrow> jsstring \<Rightarrow> jsstring \<Rightarrow> jsstring \<Rightarrow> bool" where
  "pairAllowed t prevVar prevValue currentVar v =
     (let forwardKey = tmpl prevVar @ ''_'' @ tmpl currentVar;
          backwardKey = tmpl currentVar @ ''_'' @ tmpl prevVar
      in case map_of (pairRelations t) forwardKey of
           Some pairs \<Rightarrow> list_ex (\<lambda>p. at p 0 = prevValue \<and> at p 1 = v) pairs
         | None \<Rightarrow>
             (case map_of (pairRelations t) backwardKey of
                Some pairs \<Rightarrow> list_ex (\<lambda>p. at p 0 = v \<and> at p 1 = prevValue) pairs
              | None \<Rightarrow> True))"

definition isValid ::
  "tables \<Rightarrow> jsstring list \<Rightarrow> (jsstring \<times> jsstring) list \<Rightarrow> jsstring \<Rightarrow> jsstring \<Rightarrow> bool" where
  "isValid t assigned currentTuple currentVar v =
     list_all (\<lambda>prevVar. pairAllowed t prevVar (tupleGet currentTuple prevVar) currentVar v) assigned"

text \<open>A row is an object: assigning to a key it has replaces the value in place.\<close>

type_synonym LabeledTuple = "(string \<times> jsstring) list"

definition labeled :: "(jsstring \<times> jsstring) list \<Rightarrow> LabeledTuple" where
  "labeled currentTuple = foldl (\<lambda>row (k, v). mapSet (tmpl k) v row) [] currentTuple"

text \<open>
  \<open>buildTuples(index, currentTuple)\<close> over the chain: \<open>assigned\<close> is the chain before
  \<open>index\<close> and the list recursed on is the chain from \<open>index\<close> on.
\<close>

fun buildTuples ::
  "tables \<Rightarrow> jsstring list \<Rightarrow> jsstring list \<Rightarrow> (jsstring \<times> jsstring) list \<Rightarrow> LabeledTuple list" where
  "buildTuples t assigned [] currentTuple = [labeled currentTuple]"
| "buildTuples t assigned (currentVar # rest) currentTuple =
     concat (map (\<lambda>v.
               if isValid t assigned currentTuple currentVar v
               then buildTuples t (assigned @ [currentVar]) rest (mapSet currentVar v currentTuple)
               else [])
             (potentialValues t currentVar))"

definition generateTuples :: "VariableContents \<Rightarrow> error + LabeledTuple list" where
  "generateTuples variables =
     (case collectAll variables \<lparr>pairRelations = [], variableValues = [], relationGraph = []\<rparr> of
        Inl e \<Rightarrow> Inl e
      | Inr t \<Rightarrow>
          (let allVariables = allVariablesOf (pairRelations t);
               chain = chainOf allVariables (relationGraph t)
           in Inr (buildTuples t [] chain [])))"

section \<open>Evaluation of a query\<close>

record QueryOutcome =
  result :: "jsstring list"
  variables :: VariableContents

fun findIndex :: "('a \<Rightarrow> bool) \<Rightarrow> 'a list \<Rightarrow> nat option" where
  "findIndex P [] = None"
| "findIndex P (x # xs) =
     (if P x then Some 0 else (case findIndex P xs of None \<Rightarrow> None | Some i \<Rightarrow> Some (Suc i)))"

text \<open>A simple query: each new binding replaces the binding of its name, or is appended.\<close>

definition mergeVariable :: "VariableContents \<Rightarrow> Variable \<Rightarrow> VariableContents" where
  "mergeVariable mergedVariables newVar =
     (case findIndex (\<lambda>v. var_name v = var_name newVar) mergedVariables of
        Some existingIndex \<Rightarrow> mergedVariables[existingIndex := newVar]
      | None \<Rightarrow> mergedVariables @ [newVar])"

definition firstValue :: "VariableContents \<Rightarrow> jsstring list" where
  "firstValue vs = (case vs of [] \<Rightarrow> [] | v # rest \<Rightarrow> var_value v)"

text \<open>The loops of the \<open>AND\<close> branch, before its last test.\<close>

definition andVariables :: "VariableContents \<Rightarrow> VariableContents \<Rightarrow> VariableContents" where
  "andVariables leftVariables rightVariables =
     concat (map (\<lambda>leftVar.
               (case find (\<lambda>v. var_name v = var_name leftVar) rightVariables of
                  Some rightVar \<Rightarrow>
                    (let intersection =
                           filter (\<lambda>x. x \<in> set (var_value rightVar)) (var_value leftVar)
                     in if length intersection > 0
                        then [\<lparr>var_name = var_name leftVar, var_value = intersection\<rparr>] else [])
                | None \<Rightarrow> [leftVar]))
             leftVariables)
     @ filter (\<lambda>rightVar. \<not> list_ex (\<lambda>v. var_name v = var_name rightVar) leftVariables)
         rightVariables"

text \<open>The loop of the \<open>OR\<close> branch.\<close>

definition orVariable :: "VariableContents \<Rightarrow> Variable \<Rightarrow> VariableContents" where
  "orVariable combinedVariables rightVar =
     (case findIndex (\<lambda>v. var_name v = var_name rightVar) combinedVariables of
        Some existingVarIndex \<Rightarrow>
          combinedVariables[existingVarIndex :=
            (combinedVariables ! existingVarIndex)
              \<lparr>var_value := uniq (var_value (combinedVariables ! existingVarIndex)
                                   @ var_value rightVar)\<rparr>]
      | None \<Rightarrow> combinedVariables @ [rightVar])"

definition orVariables :: "VariableContents \<Rightarrow> VariableContents \<Rightarrow> VariableContents" where
  "orVariables leftVariables rightVariables = foldl orVariable leftVariables rightVariables"

text \<open>
  \<open>Object.values(tuple).join(",")\<close>: the values of the keys that are array indices
  first, in ascending order, then the others in insertion order; \<open>undefined\<close> joins as
  the empty string.
\<close>

definition digitValue :: "char \<Rightarrow> int" where
  "digitValue c = int (length (takeWhile (\<lambda>d. d \<noteq> c) ''0123456789''))"

definition intOfDigits :: "string \<Rightarrow> int" where
  "intOfDigits s = foldl (\<lambda>n c. 10 * n + digitValue c) 0 s"

definition isArrayIndex :: "string \<Rightarrow> bool" where
  "isArrayIndex s =
     (s \<noteq> [] \<and> list_all isDigit s \<and> (s = ''0'' \<or> take 1 s \<noteq> ''0'')
      \<and> intOfDigits s < 4294967295)"

definition objectValues :: "LabeledTuple \<Rightarrow> jsstring list" where
  "objectValues row =
     map snd (sort_key (\<lambda>(k, v). intOfDigits k) (filter (\<lambda>(k, v). isArrayIndex k) row))
     @ map snd (filter (\<lambda>(k, v). \<not> isArrayIndex k) row)"

definition joinValues :: "jsstring list \<Rightarrow> string" where
  "joinValues vs = join (map (\<lambda>v. case v of None \<Rightarrow> [] | Some s \<Rightarrow> s) vs) '',''"

text \<open>
  The projection that ends a compound query: each pair binding overwrites the bindings
  named by its two variables with the components its pairs hold.
\<close>

definition setValue :: "jsstring \<Rightarrow> jsstring list \<Rightarrow> VariableContents \<Rightarrow> VariableContents" where
  "setValue x vals filteredVariables =
     (case findIndex (\<lambda>v. Some (var_name v) = x) filteredVariables of
        Some i \<Rightarrow> filteredVariables[i := (filteredVariables ! i)\<lparr>var_value := vals\<rparr>]
      | None \<Rightarrow> filteredVariables)"

definition project :: "Variable \<Rightarrow> VariableContents \<Rightarrow> error + VariableContents" where
  "project pairVar filteredVariables =
     (let parts = split (firstPart (var_name pairVar) ''_pairs'') ''_'';
          var1 = at parts 0;
          var2 = at parts 1
      in case splitPairs (var_value pairVar) of
           Inl e \<Rightarrow> Inl e
         | Inr pairs \<Rightarrow>
             Inr (setValue var2 (uniq (map (\<lambda>p. at p 1) pairs))
                    (setValue var1 (uniq (map (\<lambda>p. at p 0) pairs)) filteredVariables)))"

fun projectAll :: "VariableContents \<Rightarrow> VariableContents \<Rightarrow> error + VariableContents" where
  "projectAll [] filteredVariables = Inr filteredVariables"
| "projectAll (pairVar # rest) filteredVariables =
     (case project pairVar filteredVariables of
        Inl e \<Rightarrow> Inl e
      | Inr filteredVariables' \<Rightarrow> projectAll rest filteredVariables')"

text \<open>The part of a compound query after its combined bindings are known.\<close>

definition reconstruct :: "VariableContents \<Rightarrow> error + QueryOutcome" where
  "reconstruct combinedVariables =
     (case generateTuples combinedVariables of
        Inl e \<Rightarrow> Inl e
      | Inr tuples \<Rightarrow>
          (case projectAll (filter (\<lambda>v. str_includes (var_name v) ''_pairs'') combinedVariables)
                  combinedVariables of
             Inl e \<Rightarrow> Inl e
           | Inr filteredVariables \<Rightarrow>
               Inr \<lparr>result = map (\<lambda>tuple. Some (joinValues (objectValues tuple))) tuples,
                    variables = filteredVariables\<rparr>))"

text \<open>The compound case of \<open>evaluateQuery\<close>, once both operands are evaluated.\<close>

definition combine :: "Operator \<Rightarrow> QueryOutcome \<Rightarrow> QueryOutcome \<Rightarrow> error + QueryOutcome" where
  "combine operator leftResult rightResult =
     (case operator of
        OpAND \<Rightarrow>
          if length (variables leftResult) = 0 \<or> length (variables rightResult) = 0
          then Inr \<lparr>result = [], variables = []\<rparr>
          else
            (let combinedVariables = andVariables (variables leftResult) (variables rightResult)
             in if list_ex (\<lambda>v. length (var_value v) = 0) combinedVariables
                then Inr \<lparr>result = [], variables = []\<rparr>
                else reconstruct combinedVariables)
      | OpOR \<Rightarrow>
          if length (variables leftResult) = 0 then Inr rightResult
          else if length (variables rightResult) = 0 then Inr leftResult
          else reconstruct (orVariables (variables leftResult) (variables rightResult)))"

text \<open>
  The bindings are passed by value. That is what the source computes whenever the right
  operand of every compound node is a simple query, which holds for every tree the parser
  builds: the only assignment to a shared object, in the \<open>OR\<close> loop, then reaches no
  object that is read again.
\<close>

fun evaluateQuery :: "world \<Rightarrow> ASTNode \<Rightarrow> VariableContents \<Rightarrow> error + QueryOutcome" where
  "evaluateQuery w (SimpleQueryNode query) existingVariables =
     (case evaluateSimpleQuery w query existingVariables of
        Inl e \<Rightarrow> Inl e
      | Inr vs \<Rightarrow>
          Inr \<lparr>result = firstValue vs, variables = foldl mergeVariable existingVariables vs\<rparr>)"
| "evaluateQuery w (CompoundQuery left operator right) existingVariables =
     (case evaluateQuery w left existingVariables of
        Inl e \<Rightarrow> Inl e
      | Inr leftResult \<Rightarrow>
          (case evaluateQuery w right (variables leftResult) of
             Inl e \<Rightarrow> Inl e
           | Inr rightResult \<Rightarrow> combine operator leftResult rightResult))"

section \<open>The endpoint (route.ts)\<close>

text \<open>
  The JSON body of the response: on success the rendered tree, the bindings, the rows and
  the query; on any thrown error its message, no bindings, the empty object and the query.
\<close>

datatype rows = Rows "jsstring list" | EmptyObject

datatype payload =
  Answer string VariableContents rows string
| Failure string VariableContents rows string

definition GET :: "world \<Rightarrow> string option \<Rightarrow> payload" where
  "GET w param =
     (let query = (case param of None \<Rightarrow> [] | Some q \<Rightarrow> q)
      in case parseQuery query of
           Inl e \<Rightarrow> Failure (message e) [] EmptyObject query
         | Inr parsedQuery \<Rightarrow>
             (case evaluateQuery w parsedQuery [] of
                Inl e \<Rightarrow> Failure (message e) [] EmptyObject query
              | Inr outcome \<Rightarrow>
                  Answer (astToString parsedQuery) (variables outcome) (Rows (result outcome))
                    query))"

section \<open>A stand-in for the upstream\<close>

text \<open>
  A world for concrete evaluations: the catalog knows \<open>r_isa\<close> under the id 6; the
  upstream answers a \<open>relations/to\<close> request for an entity of the table, in the default
  weight band, with the listed names as nodes of type 1, and fails on every other request;
  a pattern is read as a literal substring.
\<close>

fun lexicalNodes :: "int \<Rightarrow> string list \<Rightarrow> Node list" where
  "lexicalNodes i [] = []"
| "lexicalNodes i (n # ns) =
     \<lparr>node_id = i, node_name = n, node_type = 1, node_w = 50\<rparr> # lexicalNodes (i + 1) ns"

definition isaWorld :: "(string \<times> string list) list \<Rightarrow> world" where
  "isaWorld table =
     \<lparr>relationsData = [\<lparr>entry_id = 6, entry_code = ''r_isa''\<rparr>],
      fetchJson =
        (\<lambda>url. case find (\<lambda>(entity, names).
                            url = relationsUrl ''to'' entity 6 (Num MIN_WEIGHT) (Num MAX_WEIGHT))
                     table of
                 None \<Rightarrow> None
               | Some (entity, names) \<Rightarrow> Some \<lparr>nodes = lexicalNodes 1 names, relations = []\<rparr>),
      newRegExp = (\<lambda>pattern. Inr (\<lambda>s. str_includes s pattern))\<rparr>"

text \<open>
  A second world, for clauses between two variables: the node list holds the lion and the
  animal, and the only edge of type 6 leads from the lion to the animal.
\<close>

definition lionWorld :: world where
  "lionWorld =
     \<lparr>relationsData = [\<lparr>entry_id = 6, entry_code = ''r_isa''\<rparr>],
      fetchJson =
        (\<lambda>url. if url = nodesUrl then Some \<lparr>nodes = lexicalNodes 1 [''lion'', ''animal''], relations = []\<rparr>
               else if url = relationsUrl ''from'' ''lion'' 6 (Num MIN_WEIGHT) (Num MAX_WEIGHT)
               then Some \<lparr>nodes = lexicalNodes 1 [''lion'', ''animal''],
                          relations = [\<lparr>rel_id = 1, rel_node1 = 1, rel_node2 = 2, rel_type = 6,
                                        rel_w = 50\<rparr>]\<rparr>
               else if url = relationsUrl ''from'' ''animal'' 6 (Num MIN_WEIGHT) (Num MAX_WEIGHT)
               then Some \<lparr>nodes = lexicalNodes 1 [''lion'', ''animal''], relations = []\<rparr>
               else None),
      newRegExp = (\<lambda>pattern. Inr (\<lambda>s. str_includes s pattern))\<rparr>"

section \<open>Properties of the lexer and the parser\<close>

text \<open>
  C7 (as amended). Whenever the current character matches none of the lexer's
  classification rules (it is not whitespace, not \<open>$\<close>, not the start of \<open>r_\<close> or
  \<open>!r_\<close>, not one of \<open><\<close>, \<open>>\<close>, \<open>=\<close>, not \<open>/\<close>, not the start of the literals
  \<open>AND\<close> or \<open>OR\<close>, and not an ASCII letter), \<open>getNextToken\<close> fails with the error
  \<open>Unexpected character: c\<close>, whose message names the offending character and nothing
  else: the position is not part of it.
\<close>

theorem getNextToken_unexpected_character:
  assumes "currentChar st = Some c"
    and "\<not> isSpace c"
    and "c \<noteq> CHR ''$''"
    and "\<not> (c = CHR ''r'' \<and> position st + 1 < length input
            \<and> input ! (position st + 1) = CHR ''_'')"
    and "\<not> (c = CHR ''!'' \<and> position st + 2 < length input
            \<and> input ! (position st + 1) = CHR ''r'' \<and> input ! (position st + 2) = CHR ''_'')"
    and "c \<noteq> CHR ''<''" "c \<noteq> CHR ''>''" "c \<noteq> CHR ''=''"
    and "c \<noteq> CHR ''/''"
    and "\<not> (c = CHR ''A'' \<and> slice input (position st) (position st + 3) = ''AND'')"
    and "\<not> (c = CHR ''O'' \<and> slice input (position st) (position st + 2) = ''OR'')"
    and "\<not> isLetter c"
  shows "getNextToken input st = Inl (Error (''Unexpected character: '' @ [c]))"
  using assms by (auto simp: getNextToken.simps [of input st])

theorem getNextToken_unexpected_character_witness:
  "getNextToken ''lion #'' \<lparr>position = 5, currentChar = Some (CHR ''#'')\<rparr>
     = Inl (Error ''Unexpected character: #'')"
  using getNextToken_unexpected_character
          [of "\<lparr>position = 5, currentChar = Some (CHR ''#'')\<rparr>" "CHR ''#''" "''lion #''"]
  by (simp add: isSpace_def isLetter_def)

text \<open>
  C7 as stated fails: the same message is produced for an offending character at
  position 0 and at position 1, so the message does not name the position.
\<close>

theorem lexical_error_position_counterexample:
  "parseQuery ''#'' = Inl (Error ''Unexpected character: #'')
   \<and> parseQuery '' #'' = Inl (Error ''Unexpected character: #'')"
  by code_simp

text \<open>
  C5. The parser folds a chain of clauses to the left, whatever the operators: when the
  input holds a clause \<open>a\<close>, an operator \<open>OP1\<close>, a clause \<open>b\<close>, an operator \<open>OP2\<close>, a
  clause \<open>c\<close> and then ends, the tree is \<open>((a OP1 b) OP2 c)\<close> for each of the four
  choices of \<open>OP1\<close> and \<open>OP2\<close> among \<open>AND\<close> and \<open>OR\<close>.
\<close>

theorem parseQuery_left_fold:
  assumes "createParser input (createLexer input) = Inr ps0"
    and "simpleQuery input ps0 = Inr (a, ps1)"
    and "(tok_type (currentToken ps1), op1) \<in> {(AND, OpAND), (OR, OpOR)}"
    and "eat input (tok_type (currentToken ps1)) ps1 = Inr ps1'"
    and "simpleQuery input ps1' = Inr (b, ps2)"
    and "(tok_type (currentToken ps2), op2) \<in> {(AND, OpAND), (OR, OpOR)}"
    and "eat input (tok_type (currentToken ps2)) ps2 = Inr ps2'"
    and "simpleQuery input ps2' = Inr (c, ps3)"
    and "tok_type (currentToken ps3) = EOF"
  shows "parseQuery input =
           Inr (CompoundQuery (CompoundQuery (SimpleQueryNode a) op1 (SimpleQueryNode b)) op2
                  (SimpleQueryNode c))"
proof -
  have l3: "expressionLoop input n ps3 = Inr (n, ps3)" for n
    using assms(9) by (simp add: expressionLoop.simps [of input n ps3])
  have l2: "expressionLoop input n ps2 = Inr (CompoundQuery n op2 (SimpleQueryNode c), ps3)" for n
    using assms(6,7,8) l3 by (auto simp: expressionLoop.simps [of input n ps2])
  have l1: "expressionLoop input n ps1
              = Inr (CompoundQuery (CompoundQuery n op1 (SimpleQueryNode b)) op2
                       (SimpleQueryNode c), ps3)" for n
    using assms(3,4,5) l2 by (auto simp: expressionLoop.simps [of input n ps1])
  show ?thesis
    using assms(1,2,9) l1 by (simp add: parseQuery_def parse_def expression_def)
qed

theorem parseQuery_left_fold_witness:
  "parseQuery ''a r_x $y AND b r_z $w OR c r_q $v'' =
     Inr (CompoundQuery
            (CompoundQuery
               (SimpleQueryNode
                  (createSimpleQuery (createToken ENTITY ''a'' 0) (createToken RELATION ''r_x'' 2)
                     (createToken VARIABLE ''$y'' 6) None None False))
               OpAND
               (SimpleQueryNode
                  (createSimpleQuery (createToken ENTITY ''b'' 13) (createToken RELATION ''r_z'' 15)
                     (createToken VARIABLE ''$w'' 19) None None False)))
            OpOR
            (SimpleQueryNode
               (createSimpleQuery (createToken ENTITY ''c'' 25) (createToken RELATION ''r_q'' 27)
                  (createToken VARIABLE ''$v'' 31) None None False)))"
proof -
  define input where "input = ''a r_x $y AND b r_z $w OR c r_q $v''"
  define ps0 where
    "ps0 = \<lparr>lex = \<lparr>position = 1, currentChar = Some CHR '' ''\<rparr>,
            currentToken = createToken ENTITY ''a'' 0\<rparr>"
  define ps1 where
    "ps1 = \<lparr>lex = \<lparr>position = 12, currentChar = Some CHR '' ''\<rparr>,
            currentToken = createToken AND ''AND'' 9\<rparr>"
  define ps1' where
    "ps1' = \<lparr>lex = \<lparr>position = 14, currentChar = Some CHR '' ''\<rparr>,
             currentToken = createToken ENTITY ''b'' 13\<rparr>"
  define ps2 where
    "ps2 = \<lparr>lex = \<lparr>position = 24, currentChar = Some CHR '' ''\<rparr>,
            currentToken = createToken OR ''OR'' 22\<rparr>"
  define ps2' where
    "ps2' = \<lparr>lex = \<lparr>position = 26, currentChar = Some CHR '' ''\<rparr>,
             currentToken = createToken ENTITY ''c'' 25\<rparr>"
  define ps3 where
    "ps3 = \<lparr>lex = \<lparr>position = 33, currentChar = None\<rparr>, currentToken = createToken EOF [] 33\<rparr>"
  have h0: "createParser input (createLexer input) = Inr ps0"
    unfolding input_def ps0_def by code_simp
  have h1: "simpleQuery input ps0
              = Inr (createSimpleQuery (createToken ENTITY ''a'' 0) (createToken RELATION ''r_x'' 2)
                       (createToken VARIABLE ''$y'' 6) None None False, ps1)"
    unfolding input_def ps0_def ps1_def by code_simp
  have h2: "(tok_type (currentToken ps1), OpAND) \<in> {(AND, OpAND), (OR, OpOR)}"
    unfolding ps1_def by (simp add: createToken_def)
  have h3: "eat input (tok_type (currentToken ps1)) ps1 = Inr ps1'"
    unfolding input_def ps1_def ps1'_def by code_simp
  have h4: "simpleQuery input ps1'
              = Inr (createSimpleQuery (createToken ENTITY ''b'' 13) (createToken RELATION ''r_z'' 15)
                       (createToken VARIABLE ''$w'' 19) None None False, ps2)"
    unfolding input_def ps1'_def ps2_def by code_simp
  have h5: "(tok_type (currentToken ps2), OpOR) \<in> {(AND, OpAND), (OR, OpOR)}"
    unfolding ps2_def by (simp add: createToken_def)
  have h6: "eat input (tok_type (currentToken ps2)) ps2 = Inr ps2'"
    unfolding input_def ps2_def ps2'_def by code_simp
  have h7: "simpleQuery input ps2'
              = Inr (createSimpleQuery (createToken ENTITY ''c'' 25) (createToken RELATION ''r_q'' 27)
                       (createToken VARIABLE ''$v'' 31) None None False, ps3)"
    unfolding input_def ps2'_def ps3_def by code_simp
  have h8: "tok_type (currentToken ps3) = EOF"
    unfolding ps3_def by (simp add: createToken_def)
  show ?thesis
    using parseQuery_left_fold [OF h0 h1 h2 h3 h4 h5 h6 h7 h8] unfolding input_def .
qed

text \<open>
  Every tree the parser builds leans to the left: the right operand of each compound node
  is a simple query.
\<close>

fun leftChain :: "ASTNode \<Rightarrow> bool" where
  "leftChain (SimpleQueryNode q) = True"
| "leftChain (CompoundQuery l operator r) =
     (leftChain l \<and> (case r of SimpleQueryNode q \<Rightarrow> True | CompoundQuery a b c \<Rightarrow> False))"

lemma expressionLoop_leftChain:
  "expressionLoop input node ps = Inr (node', ps') \<Longrightarrow> leftChain node \<Longrightarrow> leftChain node'"
proof (induction input node ps rule: expressionLoop.induct)
  case (1 input node ps)
  show ?case
  proof (cases "tok_type (currentToken ps) = AND \<or> tok_type (currentToken ps) = OR")
    case False
    then show ?thesis
      using "1.prems" by (simp add: expressionLoop.simps [of input node ps])
  next
    case True
    define operator where "operator = (if tok_type (currentToken ps) = AND then OpAND else OpOR)"
    from True "1.prems"(1) obtain ps1 q ps2 where
      step: "eat input (tok_type (currentToken ps)) ps = Inr ps1"
        "simpleQuery input ps1 = Inr (q, ps2)"
        "expressionLoop input (CompoundQuery node operator (SimpleQueryNode q)) ps2 = Inr (node', ps')"
      unfolding operator_def
      by (auto simp: expressionLoop.simps [of input node ps] split: sum.splits if_splits)
    have chain: "leftChain (CompoundQuery node operator (SimpleQueryNode q))"
      using "1.prems"(2) by simp
    show ?thesis
    proof (cases "tok_type (currentToken ps) = AND")
      case True
      then show ?thesis
        using "1.IH"(1) [of ps1 "(q, ps2)" q ps2] step chain by (simp add: operator_def)
    next
      case False
      with \<open>tok_type (currentToken ps) = AND \<or> tok_type (currentToken ps) = OR\<close>
      have "tok_type (currentToken ps) = OR" by simp
      then show ?thesis
        using "1.IH"(2) [of ps1 "(q, ps2)" q ps2] False step chain by (simp add: operator_def)
    qed
  qed
qed

lemma parseQuery_leftChain: "parseQuery s = Inr ast \<Longrightarrow> leftChain ast"
  by (auto simp: parseQuery_def parse_def expression_def
           split: sum.splits if_splits dest: expressionLoop_leftChain)

section \<open>Properties of the evaluation of one clause\<close>

text \<open>
  C1. The weight band that \<open>evaluateSimpleQuery\<close> derives. Without a weight token the band
  is 30 to 999999, and the token \<open>=10\<close> pins both bounds to the text \<open>10\<close>. For
  \<open>>=500\<close> the lower bound is the text \<open>=500\<close>, not 500, and for \<open><=100\<close> the upper
  bound is the text \<open>=100\<close>, not 100: the pattern \<open>/[<>=]/\<close> replaces its first match
  only, so one character of the two-character operator stays, and the request reads
  \<open>min_weight==500\<close>.
\<close>

theorem weightBand_values:
  "weightBand (q\<lparr>weightParam := None\<rparr>) = (Num 30, Num 999999)
   \<and> weightBand (q\<lparr>weightParam := Some (createToken WEIGHT_PARAM ''>=500'' p)\<rparr>)
       = (Str ''=500'', Num 999999)
   \<and> weightBand (q\<lparr>weightParam := Some (createToken WEIGHT_PARAM ''<=100'' p)\<rparr>)
       = (Num 30, Str ''=100'')
   \<and> weightBand (q\<lparr>weightParam := Some (createToken WEIGHT_PARAM ''=10'' p)\<rparr>)
       = (Str ''10'', Str ''10'')
   \<and> relationsUrl ''to'' ''mammal'' 6 (Str ''=500'') (Num 999999)
       = ''https://jdm-api.demo.lirmm.fr/v0/relations/to/mammal?types_ids=6&min_weight==500&max_weight=999999&limit=900&type=1''"
proof -
  have a: "weightBand (q\<lparr>weightParam := None\<rparr>) = (Num 30, Num 999999)"
    by (simp add: weightBand_def MIN_WEIGHT_def MAX_WEIGHT_def)
  have b: "weightBand (q\<lparr>weightParam := Some (createToken WEIGHT_PARAM ''>=500'' p)\<rparr>)
             = (Str ''=500'', Num 999999)"
    by (simp add: weightBand_def createToken_def MIN_WEIGHT_def MAX_WEIGHT_def replaceAll_def
                  isDigit_def isComparison_def)
  have c: "weightBand (q\<lparr>weightParam := Some (createToken WEIGHT_PARAM ''<=100'' p)\<rparr>)
             = (Num 30, Str ''=100'')"
    by (simp add: weightBand_def createToken_def MIN_WEIGHT_def MAX_WEIGHT_def replaceAll_def
                  isDigit_def isComparison_def)
  have d: "weightBand (q\<lparr>weightParam := Some (createToken WEIGHT_PARAM ''=10'' p)\<rparr>)
             = (Str ''10'', Str ''10'')"
    by (simp add: weightBand_def createToken_def MIN_WEIGHT_def MAX_WEIGHT_def replaceAll_def
                  isDigit_def isComparison_def)
  have e: "relationsUrl ''to'' ''mammal'' 6 (Str ''=500'') (Num 999999)
             = ''https://jdm-api.demo.lirmm.fr/v0/relations/to/mammal?types_ids=6&min_weight==500&max_weight=999999&limit=900&type=1''"
    by code_simp
  from a b c d e show ?thesis by (intro conjI)
qed

text \<open>
  C4. A negated clause \<open>$x !r word\<close> whose relation is known rebinds \<open>$x\<close> to its
  prior values without the names the lookup reports for \<open>word\<close> (the nodes of type 1 of
  the \<open>relations/to\<close> response), filtered by the clause's pattern when it has one; without
  a pattern the new value set is the set difference. With \<open>$x\<close> bound to lion, rose and
  cat and a lookup that reports lion and cat, the clause \<open>$x !r_isa mammal\<close> binds
  \<open>$x\<close> to rose.
\<close>

theorem negated_variable_entity_difference:
  assumes "tok_type (subject q) = VARIABLE" and "tok_type (object q) = ENTITY" and "negated q"
    and "grepRegex w q = Inr regex"
    and "find (\<lambda>v. entry_code v = replaceFirst (\<lambda>c. c = CHR ''!'') (tok_value (relation q)))
           (relationsData w) = Some entry"
    and "weightBand q = (minWeight, maxWeight)"
    and "reported = lexicalNames (handleAPICall w
           (relationsUrl ''to'' (tok_value (object q)) (entry_id entry) minWeight maxWeight))"
    and "prior = valuesOf existingVariables (tok_value (subject q))"
  shows "evaluateSimpleQuery w q existingVariables =
           Inr [\<lparr>var_name = tok_value (subject q),
                 var_value = regexFilterValues regex (filter (\<lambda>v. v \<notin> Some ` set reported) prior)\<rparr>]
         \<and> set (regexFilterValues None (filter (\<lambda>v. v \<notin> Some ` set reported) prior))
             = set prior - Some ` set reported"
proof
  show "evaluateSimpleQuery w q existingVariables =
           Inr [\<lparr>var_name = tok_value (subject q),
                 var_value = regexFilterValues regex (filter (\<lambda>v. v \<notin> Some ` set reported) prior)\<rparr>]"
    using assms by (simp add: evaluateSimpleQuery_def variableAgainstEntity_def Let_def)
  show "set (regexFilterValues None (filter (\<lambda>v. v \<notin> Some ` set reported) prior))
          = set prior - Some ` set reported"
    by (auto simp: regexFilterValues_def)
qed

theorem negated_variable_entity_difference_witness:
  "parseQuery ''$x !r_isa mammal''
     = Inr (SimpleQueryNode
              (createSimpleQuery (createToken VARIABLE ''$x'' 0) (createToken RELATION ''!r_isa'' 3)
                 (createToken ENTITY ''mammal'' 10) None None True))
   \<and> evaluateSimpleQuery (isaWorld [(''mammal'', [''lion'', ''cat''])])
         (createSimpleQuery (createToken VARIABLE ''$x'' 0) (createToken RELATION ''!r_isa'' 3)
            (createToken ENTITY ''mammal'' 10) None None True)
         [\<lparr>var_name = ''$x'', var_value = [Some ''lion'', Some ''rose'', Some ''cat'']\<rparr>]
       = Inr [\<lparr>var_name = ''$x'', var_value = [Some ''rose'']\<rparr>]"
proof
  show "parseQuery ''$x !r_isa mammal''
     = Inr (SimpleQueryNode
              (createSimpleQuery (createToken VARIABLE ''$x'' 0) (createToken RELATION ''!r_isa'' 3)
                 (createToken ENTITY ''mammal'' 10) None None True))"
    by code_simp
next
  define w where "w = isaWorld [(''mammal'', [''lion'', ''cat''])]"
  define q where
    "q = createSimpleQuery (createToken VARIABLE ''$x'' 0) (createToken RELATION ''!r_isa'' 3)
           (createToken ENTITY ''mammal'' 10) None None True"
  define ex where "ex = [\<lparr>var_name = ''$x'', var_value = [Some ''lion'', Some ''rose'', Some ''cat'']\<rparr>]"
  have h1: "tok_type (subject q) = VARIABLE" and h2: "tok_type (object q) = ENTITY"
    and h3: "negated q"
    by (simp_all add: q_def createSimpleQuery_def createToken_def)
  have h4: "grepRegex w q = Inr None"
    by (simp add: q_def createSimpleQuery_def grepRegex_def)
  have h5: "find (\<lambda>v. entry_code v = replaceFirst (\<lambda>c. c = CHR ''!'') (tok_value (relation q)))
              (relationsData w) = Some \<lparr>entry_id = 6, entry_code = ''r_isa''\<rparr>"
    by (simp add: q_def w_def createSimpleQuery_def createToken_def isaWorld_def)
  have h6: "weightBand q = (Num MIN_WEIGHT, Num MAX_WEIGHT)"
    by (simp add: q_def createSimpleQuery_def weightBand_def)
  have h7: "[''lion'', ''cat''] = lexicalNames (handleAPICall w
              (relationsUrl ''to'' (tok_value (object q)) (entry_id \<lparr>entry_id = 6, entry_code = ''r_isa''\<rparr>)
                 (Num MIN_WEIGHT) (Num MAX_WEIGHT)))"
    by (simp add: q_def w_def createSimpleQuery_def createToken_def isaWorld_def handleAPICall_def
                  lexicalNames_def)
  have h8: "[Some ''lion'', Some ''rose'', Some ''cat''] = valuesOf ex (tok_value (subject q))"
    by (simp add: q_def ex_def createSimpleQuery_def createToken_def valuesOf_def)
  have "evaluateSimpleQuery w q ex =
          Inr [\<lparr>var_name = tok_value (subject q),
                var_value = regexFilterValues None
                  (filter (\<lambda>v. v \<notin> Some ` set [''lion'', ''cat''])
                     [Some ''lion'', Some ''rose'', Some ''cat''])\<rparr>]"
    using negated_variable_entity_difference [OF h1 h2 h3 h4 h5 h6 h7 h8] by (rule conjunct1)
  also have "\<dots> = Inr [\<lparr>var_name = ''$x'', var_value = [Some ''rose'']\<rparr>]"
    by (simp add: q_def createSimpleQuery_def createToken_def regexFilterValues_def)
  finally show "evaluateSimpleQuery (isaWorld [(''mammal'', [''lion'', ''cat''])])
         (createSimpleQuery (createToken VARIABLE ''$x'' 0) (createToken RELATION ''!r_isa'' 3)
            (createToken ENTITY ''mammal'' 10) None None True)
         [\<lparr>var_name = ''$x'', var_value = [Some ''lion'', Some ''rose'', Some ''cat'']\<rparr>]
       = Inr [\<lparr>var_name = ''$x'', var_value = [Some ''rose'']\<rparr>]"
    unfolding w_def q_def ex_def .
qed

text \<open>
  C10. A negated clause between a variable and an entity, in either order, whose variable
  has no binding yet, binds the variable to the empty list: the prior values default to
  the empty list, and nothing is thrown.
\<close>

theorem negated_unbound_variable_empty:
  assumes "negated q"
    and "grepRegex w q = Inr regex"
    and "find (\<lambda>v. entry_code v = replaceFirst (\<lambda>c. c = CHR ''!'') (tok_value (relation q)))
           (relationsData w) = Some entry"
    and "(tok_type (subject q) = VARIABLE \<and> tok_type (object q) = ENTITY
            \<and> x = tok_value (subject q))
         \<or> (tok_type (subject q) = ENTITY \<and> tok_type (object q) = VARIABLE
            \<and> x = tok_value (object q))"
    and "find (\<lambda>v. var_name v = x) existingVariables = None"
  shows "evaluateSimpleQuery w q existingVariables = Inr [\<lparr>var_name = x, var_value = []\<rparr>]"
proof -
  have empty: "regexFilterValues regex [] = []"
    by (simp add: regexFilterValues_def split: option.splits)
  obtain minWeight maxWeight where band: "weightBand q = (minWeight, maxWeight)"
    by (cases "weightBand q")
  from assms(4) show ?thesis
  proof
    assume "tok_type (subject q) = VARIABLE \<and> tok_type (object q) = ENTITY
              \<and> x = tok_value (subject q)"
    then show ?thesis
      using assms(1,2,3,5) band empty
      by (simp add: evaluateSimpleQuery_def variableAgainstEntity_def valuesOf_def Let_def)
  next
    assume "tok_type (subject q) = ENTITY \<and> tok_type (object q) = VARIABLE
              \<and> x = tok_value (object q)"
    then show ?thesis
      using assms(1,2,3,5) band empty
      by (simp add: evaluateSimpleQuery_def variableAgainstEntity_def valuesOf_def Let_def)
  qed
qed

theorem negated_unbound_variable_empty_witness:
  "evaluateSimpleQuery (isaWorld [(''mammal'', [''lion'', ''cat''])])
     (createSimpleQuery (createToken VARIABLE ''$x'' 0) (createToken RELATION ''!r_isa'' 3)
        (createToken ENTITY ''mammal'' 10) None None True) []
     = Inr [\<lparr>var_name = ''$x'', var_value = []\<rparr>]
   \<and> evaluateSimpleQuery (isaWorld [(''mammal'', [''lion'', ''cat''])])
       (createSimpleQuery (createToken ENTITY ''lion'' 0) (createToken RELATION ''!r_isa'' 5)
          (createToken VARIABLE ''$x'' 12) None None True) []
       = Inr [\<lparr>var_name = ''$x'', var_value = []\<rparr>]
   \<and> GET (isaWorld [(''mammal'', [''lion'', ''cat''])]) (Some ''lion !r_isa $x'')
       = Answer ''lion !r_isa $x'' [\<lparr>var_name = ''$x'', var_value = []\<rparr>] (Rows [])
           ''lion !r_isa $x''"
proof -
  define w where "w = isaWorld [(''mammal'', [''lion'', ''cat''])]"
  have known: "find (\<lambda>v. entry_code v = replaceFirst (\<lambda>c. c = CHR ''!'') ''!r_isa'')
                 (relationsData w) = Some \<lparr>entry_id = 6, entry_code = ''r_isa''\<rparr>"
    by (simp add: w_def isaWorld_def)
  have a: "evaluateSimpleQuery w
     (createSimpleQuery (createToken VARIABLE ''$x'' 0) (createToken RELATION ''!r_isa'' 3)
        (createToken ENTITY ''mammal'' 10) None None True) []
     = Inr [\<lparr>var_name = ''$x'', var_value = []\<rparr>]"
    using known
    by (intro negated_unbound_variable_empty [where regex = None])
       (simp_all add: createSimpleQuery_def createToken_def grepRegex_def)
  have b: "evaluateSimpleQuery w
       (createSimpleQuery (createToken ENTITY ''lion'' 0) (createToken RELATION ''!r_isa'' 5)
          (createToken VARIABLE ''$x'' 12) None None True) []
       = Inr [\<lparr>var_name = ''$x'', var_value = []\<rparr>]"
    using known
    by (intro negated_unbound_variable_empty [where regex = None])
       (simp_all add: createSimpleQuery_def createToken_def grepRegex_def)
  have c: "GET (isaWorld [(''mammal'', [''lion'', ''cat''])]) (Some ''lion !r_isa $x'')
       = Answer ''lion !r_isa $x'' [\<lparr>var_name = ''$x'', var_value = []\<rparr>] (Rows [])
           ''lion !r_isa $x''"
    by code_simp
  from a b c show ?thesis unfolding w_def by (intro conjI)
qed

text \<open>
  C9. A clause whose subject and object are both entities always throws: it matches none
  of the three cases of the dispatch. When its relation is known and its pattern, if any,
  compiles, the error is \<open>Invalid API URL  or case not implemented\<close> (the URL printed in
  the message is the empty string); otherwise the earlier error is thrown. The grammar
  accepts such a clause: \<open>lion r_isa animal\<close> parses.
\<close>

theorem entity_entity_throws:
  assumes "tok_type (subject q) = ENTITY" and "tok_type (object q) = ENTITY"
  shows "(\<exists>e. evaluateSimpleQuery w q existingVariables = Inl e)
         \<and> (\<forall>regex entry.
               grepRegex w q = Inr regex
               \<and> find (\<lambda>v. entry_code v = replaceFirst (\<lambda>c. c = CHR ''!'') (tok_value (relation q)))
                     (relationsData w) = Some entry
               \<longrightarrow> evaluateSimpleQuery w q existingVariables
                     = Inl (Error ''Invalid API URL  or case not implemented''))"
proof -
  obtain minWeight maxWeight where band: "weightBand q = (minWeight, maxWeight)"
    by (cases "weightBand q")
  show ?thesis
    using assms band
    by (auto simp: evaluateSimpleQuery_def Let_def split: sum.splits option.splits)
qed

theorem entity_entity_throws_witness:
  "parseQuery ''lion r_isa animal''
     = Inr (SimpleQueryNode
              (createSimpleQuery (createToken ENTITY ''lion'' 0) (createToken RELATION ''r_isa'' 5)
                 (createToken ENTITY ''animal'' 11) None None False))
   \<and> evaluateSimpleQuery (isaWorld [])
       (createSimpleQuery (createToken ENTITY ''lion'' 0) (createToken RELATION ''r_isa'' 5)
          (createToken ENTITY ''animal'' 11) None None False) []
       = Inl (Error ''Invalid API URL  or case not implemented'')
   \<and> GET (isaWorld []) (Some ''lion r_isa animal'')
       = Failure ''Invalid API URL  or case not implemented'' [] EmptyObject ''lion r_isa animal''"
proof -
  define q where
    "q = createSimpleQuery (createToken ENTITY ''lion'' 0) (createToken RELATION ''r_isa'' 5)
           (createToken ENTITY ''animal'' 11) None None False"
  have a: "parseQuery ''lion r_isa animal'' = Inr (SimpleQueryNode q)"
    unfolding q_def by code_simp
  have h1: "tok_type (subject q) = ENTITY" and h2: "tok_type (object q) = ENTITY"
    by (simp_all add: q_def createSimpleQuery_def createToken_def)
  have h3: "grepRegex (isaWorld []) q = Inr None"
    by (simp add: q_def createSimpleQuery_def grepRegex_def)
  have h4: "find (\<lambda>v. entry_code v = replaceFirst (\<lambda>c. c = CHR ''!'') (tok_value (relation q)))
              (relationsData (isaWorld [])) = Some \<lparr>entry_id = 6, entry_code = ''r_isa''\<rparr>"
    by (simp add: q_def createSimpleQuery_def createToken_def isaWorld_def)
  have b: "evaluateSimpleQuery (isaWorld []) q []
             = Inl (Error ''Invalid API URL  or case not implemented'')"
    using entity_entity_throws [OF h1 h2, of "isaWorld []" "[]"] h3 h4 by blast
  have c: "GET (isaWorld []) (Some ''lion r_isa animal'')
       = Failure ''Invalid API URL  or case not implemented'' [] EmptyObject ''lion r_isa animal''"
    by code_simp
  from a b c show ?thesis unfolding q_def by (intro conjI)
qed

section \<open>Properties of the combination\<close>

text \<open>
  C2. Under \<open>AND\<close>, a variable bound on both sides whose two value sets do not meet is
  left out of the combined bindings, and the rest of the combination goes on: the query
  \<open>$x r_isa mammal AND $y r_isa bird AND $x r_isa fish\<close>, where the only mammal is the
  lion, the only bird the eagle and the only fish the shark, answers with the binding of
  \<open>$y\<close> and one row, not with the empty result. The last test of the branch empties the
  result for a binding without values, but an empty intersection never enters the list
  that test reads.
\<close>

theorem and_empty_intersection_kept:
  "GET (isaWorld [(''mammal'', [''lion'']), (''bird'', [''eagle'']), (''fish'', [''shark''])])
       (Some ''$x r_isa mammal AND $y r_isa bird AND $x r_isa fish'')
     = Answer ''(($x r_isa mammal AND $y r_isa bird) AND $x r_isa fish)''
         [\<lparr>var_name = ''$y'', var_value = [Some ''eagle'']\<rparr>]
         (Rows [Some '''']) ''$x r_isa mammal AND $y r_isa bird AND $x r_isa fish''"
  by code_simp

text \<open>The \<open>OR\<close> loop, one binding at a time.\<close>

lemma orVariable_Nil: "orVariable [] r = [r]"
  by (simp add: orVariable_def)

lemma orVariable_Cons:
  "orVariable (c # cs) r =
     (if var_name c = var_name r
      then c\<lparr>var_value := uniq (var_value c @ var_value r)\<rparr> # cs
      else c # orVariable cs r)"
  by (simp add: orVariable_def split: option.splits)

lemma find_orVariable:
  "find (\<lambda>v. var_name v = n) (orVariable cs r) =
     (if var_name r = n
      then (case find (\<lambda>v. var_name v = n) cs of
              None \<Rightarrow> Some r
            | Some a \<Rightarrow> Some (a\<lparr>var_value := uniq (var_value a @ var_value r)\<rparr>))
      else find (\<lambda>v. var_name v = n) cs)"
  by (induction cs) (auto simp: orVariable_Nil orVariable_Cons)

lemma find_orVariables:
  assumes "distinct (map var_name rs)"
  shows "find (\<lambda>v. var_name v = n) (orVariables ls rs) =
           (case find (\<lambda>v. var_name v = n) rs of
              None \<Rightarrow> find (\<lambda>v. var_name v = n) ls
            | Some b \<Rightarrow>
                (case find (\<lambda>v. var_name v = n) ls of
                   None \<Rightarrow> Some b
                 | Some a \<Rightarrow> Some (a\<lparr>var_value := uniq (var_value a @ var_value b)\<rparr>)))"
  using assms
proof (induction rs arbitrary: ls)
  case Nil
  then show ?case by (simp add: orVariables_def)
next
  case (Cons r rs)
  have step: "orVariables ls (r # rs) = orVariables (orVariable ls r) rs"
    by (simp add: orVariables_def)
  have ih: "find (\<lambda>v. var_name v = n) (orVariables (orVariable ls r) rs) =
           (case find (\<lambda>v. var_name v = n) rs of
              None \<Rightarrow> find (\<lambda>v. var_name v = n) (orVariable ls r)
            | Some b \<Rightarrow>
                (case find (\<lambda>v. var_name v = n) (orVariable ls r) of
                   None \<Rightarrow> Some b
                 | Some a \<Rightarrow> Some (a\<lparr>var_value := uniq (var_value a @ var_value b)\<rparr>)))"
    using Cons.IH [of "orVariable ls r"] Cons.prems by simp
  show ?case
  proof (cases "var_name r = n")
    case True
    then have "n \<notin> var_name ` set rs" using Cons.prems by auto
    then have "find (\<lambda>v. var_name v = n) rs = None"
      by (auto simp: find_None_iff)
    then show ?thesis
      using True ih by (simp add: step find_orVariable)
  next
    case False
    then have eq: "find (\<lambda>v. var_name v = n) (orVariable ls r) = find (\<lambda>v. var_name v = n) ls"
      by (simp add: find_orVariable)
    have "find (\<lambda>v. var_name v = n) (r # rs) = find (\<lambda>v. var_name v = n) rs"
      using False by simp
    then show ?thesis
      unfolding step ih eq by simp
  qed
qed

lemma set_uniq: "set (uniq xs) = set xs"
proof (induction xs rule: uniq.induct)
  case 1
  then show ?case by simp
next
  case (2 x xs)
  then show ?case by auto
qed

subsection \<open>An invariant of the bindings\<close>

text \<open>
  No two bindings of a result carry the same name, provided the bindings the evaluation
  starts from do not: a clause yields one binding, which replaces the binding of its name
  or is appended, and both combinations keep one binding for each name.
\<close>

lemma findIndex_Some: "findIndex P xs = Some i \<Longrightarrow> i < length xs \<and> P (xs ! i)"
proof (induction xs arbitrary: i)
  case Nil
  then show ?case by simp
next
  case (Cons x xs)
  then show ?case by (cases "P x") (auto split: option.splits)
qed

lemma findIndex_None: "findIndex P xs = None \<Longrightarrow> x \<in> set xs \<Longrightarrow> \<not> P x"
  by (induction xs) (auto split: if_splits option.splits)

lemma evaluateSimpleQuery_single:
  assumes "evaluateSimpleQuery w q existingVariables = Inr vs"
  shows "\<exists>v. vs = [v]"
proof -
  obtain minWeight maxWeight where "weightBand q = (minWeight, maxWeight)"
    by (cases "weightBand q")
  then have "vs = variableAgainstEntity w ''to'' (tok_value (subject q)) (tok_value (object q))
                    (negated q) (entry_id entry) minWeight maxWeight regex existingVariables
             \<or> vs = variableAgainstEntity w ''from'' (tok_value (object q)) (tok_value (subject q))
                    (negated q) (entry_id entry) minWeight maxWeight regex existingVariables
             \<or> vs = variableAgainstVariable w (tok_value (subject q)) (tok_value (object q))
                    (negated q) (entry_id entry) minWeight maxWeight regex existingVariables"
    if "grepRegex w q = Inr regex"
      "find (\<lambda>v. entry_code v = replaceFirst (\<lambda>c. c = CHR ''!'') (tok_value (relation q)))
         (relationsData w) = Some entry" for regex entry
    using assms that by (auto simp: evaluateSimpleQuery_def Let_def split: if_splits)
  moreover have "\<exists>regex entry. grepRegex w q = Inr regex
      \<and> find (\<lambda>v. entry_code v = replaceFirst (\<lambda>c. c = CHR ''!'') (tok_value (relation q)))
           (relationsData w) = Some entry"
    using assms \<open>weightBand q = (minWeight, maxWeight)\<close>
    by (auto simp: evaluateSimpleQuery_def Let_def split: sum.splits option.splits)
  moreover have "\<exists>v. variableAgainstEntity w d x e n i a b r ex = [v]" for d x e n i a b r ex
    by (simp add: variableAgainstEntity_def Let_def)
  moreover have "\<exists>v. variableAgainstVariable w x y n i a b r ex = [v]" for x y n i a b r ex
    by (simp add: variableAgainstVariable_def processVariableToVariableRelation_def Let_def
             split: option.splits)
  ultimately show ?thesis by metis
qed

lemma mergeVariable_names:
  assumes "distinct (map var_name m)"
  shows "distinct (map var_name (mergeVariable m v))"
proof (cases "findIndex (\<lambda>u. var_name u = var_name v) m")
  case None
  have "var_name v \<noteq> var_name u" if "u \<in> set m" for u
    using findIndex_None [OF None that] by simp
  then have "var_name v \<notin> var_name ` set m" by auto
  then show ?thesis using assms None by (simp add: mergeVariable_def)
next
  case (Some i)
  then have "i < length m" "var_name (m ! i) = var_name v"
    using findIndex_Some [of "\<lambda>u. var_name u = var_name v" m i] by simp_all
  then have "map var_name (m[i := v]) = map var_name m"
    by (simp add: map_update list_update_same_conv)
  then show ?thesis using assms Some by (simp add: mergeVariable_def)
qed

lemma andVariables_names:
  assumes "distinct (map var_name ls)" "distinct (map var_name rs)"
  shows "distinct (map var_name (andVariables ls rs))"
proof -
  define keep where
    "keep l = (case find (\<lambda>v. var_name v = var_name l) rs of
                 None \<Rightarrow> True
               | Some r \<Rightarrow> filter (\<lambda>x. x \<in> set (var_value r)) (var_value l) \<noteq> [])"
    for l :: Variable
  define shared where
    "shared = (\<lambda>l :: Variable.
                 case find (\<lambda>v. var_name v = var_name l) rs of
                   Some rightVar \<Rightarrow>
                     (let intersection = filter (\<lambda>x. x \<in> set (var_value rightVar)) (var_value l)
                      in if length intersection > 0
                         then [\<lparr>var_name = var_name l, var_value = intersection\<rparr>] else [])
                 | None \<Rightarrow> [l])"
  have one: "map var_name (shared l) = (if keep l then [var_name l] else [])" for l
    by (simp add: shared_def keep_def Let_def split: option.splits)
  have left: "map var_name (concat (map shared xs)) = map var_name (filter keep xs)" for xs
    by (induction xs) (simp_all add: one)
  have "andVariables ls rs
          = concat (map shared ls)
            @ filter (\<lambda>r. \<not> list_ex (\<lambda>v. var_name v = var_name r) ls) rs"
    unfolding andVariables_def shared_def ..
  then have names: "map var_name (andVariables ls rs)
                 = map var_name (filter keep ls)
                   @ map var_name (filter (\<lambda>r. \<not> list_ex (\<lambda>v. var_name v = var_name r) ls) rs)"
    using left [of ls] by simp
  have "distinct (map var_name (filter keep ls))"
    using assms(1) by (rule distinct_map_filter)
  moreover have "distinct (map var_name (filter (\<lambda>r. \<not> list_ex (\<lambda>v. var_name v = var_name r) ls) rs))"
    using assms(2) by (rule distinct_map_filter)
  moreover have "set (map var_name (filter keep ls))
                   \<inter> set (map var_name (filter (\<lambda>r. \<not> list_ex (\<lambda>v. var_name v = var_name r) ls) rs))
                 = {}"
    by (auto simp: list_ex_iff)
  ultimately show ?thesis unfolding names by simp
qed

lemma orVariable_names:
  "map var_name (orVariable cs r) =
     (if var_name r \<in> set (map var_name cs) then map var_name cs else map var_name cs @ [var_name r])"
  by (induction cs) (auto simp: orVariable_Nil orVariable_Cons)

lemma orVariables_names:
  "distinct (map var_name ls) \<Longrightarrow> distinct (map var_name (orVariables ls rs))"
proof (induction rs arbitrary: ls)
  case Nil
  then show ?case by (simp add: orVariables_def)
next
  case (Cons r rs)
  have "distinct (map var_name (orVariable ls r))"
    using Cons.prems by (simp add: orVariable_names)
  then have "distinct (map var_name (orVariables (orVariable ls r) rs))"
    by (rule Cons.IH)
  then show ?case by (simp add: orVariables_def)
qed

lemma setValue_names: "map var_name (setValue x vals vs) = map var_name vs"
proof (cases "findIndex (\<lambda>v. Some (var_name v) = x) vs")
  case None
  then show ?thesis by (simp add: setValue_def)
next
  case (Some i)
  then have "i < length vs"
    using findIndex_Some [of "\<lambda>v. Some (var_name v) = x" vs i] by simp
  then show ?thesis
    using Some by (simp add: setValue_def map_update list_update_same_conv)
qed

lemma projectAll_names:
  "projectAll ps vs = Inr vs' \<Longrightarrow> map var_name vs' = map var_name vs"
proof (induction ps arbitrary: vs)
  case Nil
  then show ?case by simp
next
  case (Cons p ps)
  then obtain vs1 where "project p vs = Inr vs1" "projectAll ps vs1 = Inr vs'"
    by (auto split: sum.splits)
  moreover from this(1) have "map var_name vs1 = map var_name vs"
    by (auto simp: project_def Let_def setValue_names split: sum.splits)
  ultimately show ?case using Cons.IH by simp
qed

lemma reconstruct_names:
  "reconstruct vs = Inr out \<Longrightarrow> map var_name (variables out) = map var_name vs"
  by (auto simp: reconstruct_def split: sum.splits dest: projectAll_names)

lemma combine_names:
  assumes "combine operator l r = Inr out"
    and "distinct (map var_name (variables l))" "distinct (map var_name (variables r))"
  shows "distinct (map var_name (variables out))"
proof (cases operator)
  case OpAND
  then show ?thesis
    using assms andVariables_names [OF assms(2,3)]
    by (auto simp: combine_def Let_def split: if_splits dest!: reconstruct_names)
next
  case OpOR
  then show ?thesis
    using assms orVariables_names [OF assms(2), of "variables r"]
    by (auto simp: combine_def split: if_splits dest!: reconstruct_names)
qed

lemma evaluateQuery_names:
  "evaluateQuery w ast existingVariables = Inr out \<Longrightarrow> distinct (map var_name existingVariables)
   \<Longrightarrow> distinct (map var_name (variables out))"
proof (induction ast arbitrary: existingVariables out)
  case (SimpleQueryNode q)
  then obtain vs where vs: "evaluateSimpleQuery w q existingVariables = Inr vs"
    and out: "out = \<lparr>result = firstValue vs, variables = foldl mergeVariable existingVariables vs\<rparr>"
    by (auto split: sum.splits)
  from evaluateSimpleQuery_single [OF vs] obtain v where "vs = [v]" by blast
  then show ?case
    using out SimpleQueryNode.prems(2) by (simp add: mergeVariable_names)
next
  case (CompoundQuery l operator r)
  then obtain leftResult rightResult where
    l: "evaluateQuery w l existingVariables = Inr leftResult"
    and r: "evaluateQuery w r (variables leftResult) = Inr rightResult"
    and c: "combine operator leftResult rightResult = Inr out"
    by (auto split: sum.splits)
  have dl: "distinct (map var_name (variables leftResult))"
    using CompoundQuery.IH(1) [OF l CompoundQuery.prems(2)] .
  have dr: "distinct (map var_name (variables rightResult))"
    using CompoundQuery.IH(2) [OF r dl] .
  show ?case using combine_names [OF c dl dr] .
qed

subsection \<open>The combination under OR\<close>

text \<open>Without a pair binding the reconstruction yields one empty row and changes no binding.\<close>

lemma collectAll_plain:
  assumes "list_all (\<lambda>v. \<not> str_includes (var_name v) ''_pairs'') vs"
  shows "\<exists>vv. collectAll vs t = Inr (t\<lparr>variableValues := vv\<rparr>)"
  using assms
proof (induction vs arbitrary: t)
  case Nil
  have "t = t\<lparr>variableValues := variableValues t\<rparr>" by simp
  then show ?case by (metis collectAll.simps(1))
next
  case (Cons v vs)
  from Cons.prems have rest: "list_all (\<lambda>v. \<not> str_includes (var_name v) ''_pairs'') vs"
    and plain: "\<not> str_includes (var_name v) ''_pairs''"
    by simp_all
  define t' where
    "t' = t\<lparr>variableValues := mapSet (var_name v) (uniq (var_value v)) (variableValues t)\<rparr>"
  from Cons.IH [OF rest, of t'] obtain vv where
    "collectAll vs t' = Inr (t'\<lparr>variableValues := vv\<rparr>)"
    by blast
  then have "collectAll (v # vs) t = Inr (t\<lparr>variableValues := vv\<rparr>)"
    using plain by (simp add: collect_def t'_def)
  then show ?case by blast
qed

lemma generateTuples_plain:
  assumes "list_all (\<lambda>v. \<not> str_includes (var_name v) ''_pairs'') vs"
  shows "generateTuples vs = Inr [[]]"
proof -
  obtain vv where
    "collectAll vs \<lparr>pairRelations = [], variableValues = [], relationGraph = []\<rparr>
       = Inr \<lparr>pairRelations = [], variableValues = vv, relationGraph = []\<rparr>"
    using collectAll_plain [OF assms, of "\<lparr>pairRelations = [], variableValues = [], relationGraph = []\<rparr>"]
    by auto
  then show ?thesis
    by (simp add: generateTuples_def allVariablesOf_def chainOf_def buildChains.simps labeled_def)
qed

lemma reconstruct_plain:
  assumes "list_all (\<lambda>v. \<not> str_includes (var_name v) ''_pairs'') vs"
  shows "reconstruct vs = Inr \<lparr>result = [Some ''''], variables = vs\<rparr>"
proof -
  have "filter (\<lambda>v. str_includes (var_name v) ''_pairs'') vs = []"
    using assms by (simp add: list_all_iff)
  then show ?thesis
    using generateTuples_plain [OF assms]
    by (simp add: reconstruct_def objectValues_def joinValues_def)
qed

text \<open>
  C6. Under \<open>OR\<close>, when the left side has no bindings the right result is returned as
  it is, and when only the right side has none the left result is. When both sides have
  bindings, the combined bindings hold, for a name bound on both sides, the left values
  followed by the right values that are new (their union as sets), and for a name bound
  on one side only the binding of that side; when no binding is a pair binding these
  combined bindings are the bindings returned. The names of the right bindings are
  distinct in every evaluation that starts from distinct names (\<open>evaluateQuery_names\<close>).
\<close>

theorem or_combination:
  "(variables leftResult = [] \<longrightarrow> combine OpOR leftResult rightResult = Inr rightResult)
   \<and> (variables leftResult \<noteq> [] \<and> variables rightResult = []
        \<longrightarrow> combine OpOR leftResult rightResult = Inr leftResult)
   \<and> (variables leftResult \<noteq> [] \<and> variables rightResult \<noteq> []
        \<longrightarrow> combine OpOR leftResult rightResult
              = reconstruct (orVariables (variables leftResult) (variables rightResult)))
   \<and> (distinct (map var_name rs) \<longrightarrow>
        (\<forall>n a b. find (\<lambda>v. var_name v = n) ls = Some a \<and> find (\<lambda>v. var_name v = n) rs = Some b
           \<longrightarrow> find (\<lambda>v. var_name v = n) (orVariables ls rs)
                 = Some (a\<lparr>var_value := uniq (var_value a @ var_value b)\<rparr>)
               \<and> set (uniq (var_value a @ var_value b)) = set (var_value a) \<union> set (var_value b))
        \<and> (\<forall>n. find (\<lambda>v. var_name v = n) rs = None
              \<longrightarrow> find (\<lambda>v. var_name v = n) (orVariables ls rs) = find (\<lambda>v. var_name v = n) ls)
        \<and> (\<forall>n b. find (\<lambda>v. var_name v = n) ls = None \<and> find (\<lambda>v. var_name v = n) rs = Some b
              \<longrightarrow> find (\<lambda>v. var_name v = n) (orVariables ls rs) = Some b))
   \<and> (list_all (\<lambda>v. \<not> str_includes (var_name v) ''_pairs'') (orVariables ls rs)
        \<longrightarrow> reconstruct (orVariables ls rs)
              = Inr \<lparr>result = [Some ''''], variables = orVariables ls rs\<rparr>)"
proof (intro conjI impI allI)
  show "combine OpOR leftResult rightResult = Inr rightResult" if "variables leftResult = []"
    using that by (simp add: combine_def)
  show "combine OpOR leftResult rightResult = Inr leftResult"
    if "variables leftResult \<noteq> [] \<and> variables rightResult = []"
    using that by (simp add: combine_def)
  show "combine OpOR leftResult rightResult
          = reconstruct (orVariables (variables leftResult) (variables rightResult))"
    if "variables leftResult \<noteq> [] \<and> variables rightResult \<noteq> []"
    using that by (simp add: combine_def)
  show "find (\<lambda>v. var_name v = n) (orVariables ls rs)
          = Some (a\<lparr>var_value := uniq (var_value a @ var_value b)\<rparr>)"
    if "distinct (map var_name rs)"
      and "find (\<lambda>v. var_name v = n) ls = Some a \<and> find (\<lambda>v. var_name v = n) rs = Some b"
    for n a b
    using that by (simp add: find_orVariables)
  show "set (uniq (var_value a @ var_value b)) = set (var_value a) \<union> set (var_value b)" for a b
    by (simp add: set_uniq)
  show "find (\<lambda>v. var_name v = n) (orVariables ls rs) = find (\<lambda>v. var_name v = n) ls"
    if "distinct (map var_name rs)" and "find (\<lambda>v. var_name v = n) rs = None" for n
    using that by (simp add: find_orVariables)
  show "find (\<lambda>v. var_name v = n) (orVariables ls rs) = Some b"
    if "distinct (map var_name rs)"
      and "find (\<lambda>v. var_name v = n) ls = None \<and> find (\<lambda>v. var_name v = n) rs = Some b"
    for n b
    using that by (simp add: find_orVariables)
  show "reconstruct (orVariables ls rs) = Inr \<lparr>result = [Some ''''], variables = orVariables ls rs\<rparr>"
    if "list_all (\<lambda>v. \<not> str_includes (var_name v) ''_pairs'') (orVariables ls rs)"
    using that by (rule reconstruct_plain)
qed

theorem or_combination_witness:
  "combine OpOR \<lparr>result = [], variables = []\<rparr>
       \<lparr>result = [Some ''a'', Some ''b''],
        variables = [\<lparr>var_name = ''$x'', var_value = [Some ''a'', Some ''b'']\<rparr>]\<rparr>
     = Inr \<lparr>result = [Some ''a'', Some ''b''],
            variables = [\<lparr>var_name = ''$x'', var_value = [Some ''a'', Some ''b'']\<rparr>]\<rparr>
   \<and> combine OpOR
         \<lparr>result = [Some ''lion''],
          variables = [\<lparr>var_name = ''$x'', var_value = [Some ''lion'', Some ''rose'']\<rparr>,
                       \<lparr>var_name = ''$y'', var_value = [Some ''mane'']\<rparr>]\<rparr>
         \<lparr>result = [Some ''cat''],
          variables = [\<lparr>var_name = ''$x'', var_value = [Some ''lion'', Some ''cat'']\<rparr>,
                       \<lparr>var_name = ''$z'', var_value = [Some ''roar'']\<rparr>]\<rparr>
       = Inr \<lparr>result = [Some ''''],
              variables = [\<lparr>var_name = ''$x'', var_value = [Some ''lion'', Some ''rose'', Some ''cat'']\<rparr>,
                           \<lparr>var_name = ''$y'', var_value = [Some ''mane'']\<rparr>,
                           \<lparr>var_name = ''$z'', var_value = [Some ''roar'']\<rparr>]\<rparr>"
proof
  show "combine OpOR \<lparr>result = [], variables = []\<rparr>
       \<lparr>result = [Some ''a'', Some ''b''],
        variables = [\<lparr>var_name = ''$x'', var_value = [Some ''a'', Some ''b'']\<rparr>]\<rparr>
     = Inr \<lparr>result = [Some ''a'', Some ''b''],
            variables = [\<lparr>var_name = ''$x'', var_value = [Some ''a'', Some ''b'']\<rparr>]\<rparr>"
    using or_combination
            [of "\<lparr>result = [], variables = []\<rparr>"
                "\<lparr>result = [Some ''a'', Some ''b''],
                  variables = [\<lparr>var_name = ''$x'', var_value = [Some ''a'', Some ''b'']\<rparr>]\<rparr>"
                "[]" "[]"]
    by simp
next
  define ls where
    "ls = [\<lparr>var_name = ''$x'', var_value = [Some ''lion'', Some ''rose'']\<rparr>,
           \<lparr>var_name = ''$y'', var_value = [Some ''mane'']\<rparr>]"
  define rs where
    "rs = [\<lparr>var_name = ''$x'', var_value = [Some ''lion'', Some ''cat'']\<rparr>,
           \<lparr>var_name = ''$z'', var_value = [Some ''roar'']\<rparr>]"
  have merged: "orVariables ls rs =
                  [\<lparr>var_name = ''$x'', var_value = [Some ''lion'', Some ''rose'', Some ''cat'']\<rparr>,
                   \<lparr>var_name = ''$y'', var_value = [Some ''mane'']\<rparr>,
                   \<lparr>var_name = ''$z'', var_value = [Some ''roar'']\<rparr>]"
    unfolding ls_def rs_def by code_simp
  have plain: "list_all (\<lambda>v. \<not> str_includes (var_name v) ''_pairs'') (orVariables ls rs)"
    unfolding merged by simp
  have nonempty: "variables \<lparr>result = [Some ''lion''], variables = ls\<rparr> \<noteq> []
                  \<and> variables \<lparr>result = [Some ''cat''], variables = rs\<rparr> \<noteq> []"
    by (simp add: ls_def rs_def)
  have "combine OpOR \<lparr>result = [Some ''lion''], variables = ls\<rparr>
          \<lparr>result = [Some ''cat''], variables = rs\<rparr>
          = Inr \<lparr>result = [Some ''''], variables = orVariables ls rs\<rparr>"
    using or_combination
            [of "\<lparr>result = [Some ''lion''], variables = ls\<rparr>"
                "\<lparr>result = [Some ''cat''], variables = rs\<rparr>" rs ls]
          nonempty plain
    by simp
  then show "combine OpOR
         \<lparr>result = [Some ''lion''],
          variables = [\<lparr>var_name = ''$x'', var_value = [Some ''lion'', Some ''rose'']\<rparr>,
                       \<lparr>var_name = ''$y'', var_value = [Some ''mane'']\<rparr>]\<rparr>
         \<lparr>result = [Some ''cat''],
          variables = [\<lparr>var_name = ''$x'', var_value = [Some ''lion'', Some ''cat'']\<rparr>,
                       \<lparr>var_name = ''$z'', var_value = [Some ''roar'']\<rparr>]\<rparr>
       = Inr \<lparr>result = [Some ''''],
              variables = [\<lparr>var_name = ''$x'', var_value = [Some ''lion'', Some ''rose'', Some ''cat'']\<rparr>,
                           \<lparr>var_name = ''$y'', var_value = [Some ''mane'']\<rparr>,
                           \<lparr>var_name = ''$z'', var_value = [Some ''roar'']\<rparr>]\<rparr>"
    unfolding merged unfolding ls_def rs_def .
qed

section \<open>Properties of the tuple reconstruction\<close>

text \<open>
  C3. On the pair binding \<open>x_y_pairs = [("lion","mane"), ("lion","roar")]\<close> and the
  plain binding \<open>y = {"mane"}\<close>, \<open>generateTuples\<close> emits the one row
  \<open>{x: "lion", y: "mane"}\<close>. A candidate is tested against the forward table of an
  earlier variable and, only when there is no forward table, against the backward one:
  when both tables exist the backward one is not read. With \<open>x_y_pairs = [("a","b")]\<close>
  and \<open>y_x_pairs = [("c","d")]\<close> the row \<open>{x: "a", y: "b"}\<close> is emitted although the
  table from \<open>y\<close> to \<open>x\<close> does not hold the pair \<open>("b","a")\<close>; the query
  \<open>$x r_isa $y AND $y r_isa $x\<close> reaches that case and answers with the lion and the
  animal, where the animal is not a lion.
\<close>

theorem generateTuples_forward_table_only:
  "generateTuples
     [\<lparr>var_name = ''x_y_pairs'', var_value = [Some ''lion,mane'', Some ''lion,roar'']\<rparr>,
      \<lparr>var_name = ''y'', var_value = [Some ''mane'']\<rparr>]
     = Inr [[(''x'', Some ''lion''), (''y'', Some ''mane'')]]
   \<and> generateTuples
       [\<lparr>var_name = ''x_y_pairs'', var_value = [Some ''a,b'']\<rparr>,
        \<lparr>var_name = ''y_x_pairs'', var_value = [Some ''c,d'']\<rparr>]
       = Inr [[(''x'', Some ''a''), (''y'', Some ''b'')]]
   \<and> GET lionWorld (Some ''$x r_isa $y AND $y r_isa $x'')
       = Answer ''($x r_isa $y AND $y r_isa $x)''
           [\<lparr>var_name = ''$x_$y_pairs'', var_value = [Some ''lion,animal'']\<rparr>,
            \<lparr>var_name = ''$y_$x_pairs'', var_value = [Some ''lion,animal'']\<rparr>]
           (Rows [Some ''lion,animal'']) ''$x r_isa $y AND $y r_isa $x''"
proof -
  have a: "generateTuples
     [\<lparr>var_name = ''x_y_pairs'', var_value = [Some ''lion,mane'', Some ''lion,roar'']\<rparr>,
      \<lparr>var_name = ''y'', var_value = [Some ''mane'']\<rparr>]
     = Inr [[(''x'', Some ''lion''), (''y'', Some ''mane'')]]"
    by code_simp
  have b: "generateTuples
       [\<lparr>var_name = ''x_y_pairs'', var_value = [Some ''a,b'']\<rparr>,
        \<lparr>var_name = ''y_x_pairs'', var_value = [Some ''c,d'']\<rparr>]
       = Inr [[(''x'', Some ''a''), (''y'', Some ''b'')]]"
    by code_simp
  have c: "GET lionWorld (Some ''$x r_isa $y AND $y r_isa $x'')
       = Answer ''($x r_isa $y AND $y r_isa $x)''
           [\<lparr>var_name = ''$x_$y_pairs'', var_value = [Some ''lion,animal'']\<rparr>,
            \<lparr>var_name = ''$y_$x_pairs'', var_value = [Some ''lion,animal'']\<rparr>]
           (Rows [Some ''lion,animal'']) ''$x r_isa $y AND $y r_isa $x''"
    by code_simp
  from a b c show ?thesis by (intro conjI)
qed

section \<open>Properties of the evaluation of a query\<close>

text \<open>The clauses of a tree in the order of their evaluation, and the first of them.\<close>

fun clauses :: "ASTNode \<Rightarrow> SimpleQuery list" where
  "clauses (SimpleQueryNode q) = [q]"
| "clauses (CompoundQuery l operator r) = clauses l @ clauses r"

fun firstClause :: "ASTNode \<Rightarrow> SimpleQuery" where
  "firstClause (SimpleQueryNode q) = q"
| "firstClause (CompoundQuery l operator r) = firstClause l"

lemma evaluateQuery_firstClause:
  "evaluateSimpleQuery w (firstClause ast) existingVariables = Inl e
   \<Longrightarrow> evaluateQuery w ast existingVariables = Inl e"
  by (induction ast) simp_all

lemma evaluateQuery_failing_clause:
  assumes "q \<in> set (clauses ast)"
    and "\<And>existingVariables. \<exists>e. evaluateSimpleQuery w q existingVariables = Inl e"
  shows "\<exists>e. evaluateQuery w ast existingVariables = Inl e"
  using assms(1)
proof (induction ast arbitrary: existingVariables)
  case (SimpleQueryNode x)
  then show ?case using assms(2) [of existingVariables] by auto
next
  case (CompoundQuery l operator r)
  show ?case
  proof (cases "evaluateQuery w l existingVariables")
    case (Inl e)
    then show ?thesis by simp
  next
    case (Inr leftResult)
    show ?thesis
    proof (cases "q \<in> set (clauses l)")
      case True
      then show ?thesis using CompoundQuery.IH(1) [of existingVariables] Inr by simp
    next
      case False
      then have "q \<in> set (clauses r)" using CompoundQuery.prems by simp
      then obtain e where "evaluateQuery w r (variables leftResult) = Inl e"
        using CompoundQuery.IH(2) by blast
      then show ?thesis using Inr by simp
    qed
  qed
qed

text \<open>
  The catalog lookup. The text that \<open>evaluateSimpleQuery\<close> looks up is the text of the
  relation token without its first \<open>!\<close>, wherever that stands: the leading negation
  marker of a token that starts with it, the whole text of a token that holds none. When
  the catalog has no entry for that text the clause throws
  \<open>Relation "text" not recognized\<close>, whatever the bindings, once its pattern, if it has
  one, has compiled. The error aborts the evaluation of every tree that holds the clause,
  it is the error of the evaluation when the clause is the first one evaluated or the
  right operand of a node whose left operand evaluates, and the endpoint answers with the
  message, no bindings and the empty result object.
\<close>

lemma catalog_miss_throws:
  assumes "grepRegex w q = Inr regex"
    and "code = replaceFirst (\<lambda>c. c = CHR ''!'') (tok_value (relation q))"
    and "find (\<lambda>v. entry_code v = code) (relationsData w) = None"
    and "msg = ''Relation '' @ [CHR 0x22] @ code @ [CHR 0x22] @ '' not recognized''"
  shows "evaluateSimpleQuery w q existingVariables = Inl (Error msg)
         \<and> (\<forall>ast. firstClause ast = q \<longrightarrow> evaluateQuery w ast existingVariables = Inl (Error msg))
         \<and> (\<forall>l operator leftResult.
               evaluateQuery w l existingVariables = Inr leftResult
               \<longrightarrow> evaluateQuery w (CompoundQuery l operator (SimpleQueryNode q)) existingVariables
                     = Inl (Error msg))
         \<and> (\<forall>ast. q \<in> set (clauses ast) \<longrightarrow> (\<exists>e. evaluateQuery w ast existingVariables = Inl e))
         \<and> (\<forall>s ast. parseQuery s = Inr ast \<and> firstClause ast = q
               \<longrightarrow> GET w (Some s) = Failure msg [] EmptyObject s)
         \<and> (\<forall>s ast. parseQuery s = Inr ast \<and> q \<in> set (clauses ast)
               \<longrightarrow> (\<exists>m. GET w (Some s) = Failure m [] EmptyObject s))
         \<and> (\<forall>cs. tok_value (relation q) = CHR ''!'' # cs \<longrightarrow> code = cs)
         \<and> (CHR ''!'' \<notin> set (tok_value (relation q)) \<longrightarrow> code = tok_value (relation q))"
proof -
  have simple: "evaluateSimpleQuery w q ex = Inl (Error msg)" for ex
  proof -
    obtain minWeight maxWeight where "weightBand q = (minWeight, maxWeight)"
      by (cases "weightBand q")
    then show ?thesis
      using assms by (simp add: evaluateSimpleQuery_def Let_def)
  qed
  have first: "evaluateQuery w ast ex = Inl (Error msg)" if "firstClause ast = q" for ast ex
    using that simple [of ex] by (intro evaluateQuery_firstClause) simp
  have right: "evaluateQuery w (CompoundQuery l operator (SimpleQueryNode q)) ex = Inl (Error msg)"
    if "evaluateQuery w l ex = Inr leftResult" for l operator leftResult ex
    using that simple [of "variables leftResult"] by simp
  have anywhere: "\<exists>e. evaluateQuery w ast ex = Inl e" if "q \<in> set (clauses ast)" for ast ex
    using that simple by (intro evaluateQuery_failing_clause [of q]) auto
  have endpoint: "GET w (Some s) = Failure msg [] EmptyObject s"
    if "parseQuery s = Inr ast" "firstClause ast = q" for s ast
    using that first [of ast "[]"] by (simp add: GET_def)
  have endpoint': "\<exists>m. GET w (Some s) = Failure m [] EmptyObject s"
    if "parseQuery s = Inr ast" "q \<in> set (clauses ast)" for s ast
    using that anywhere [of ast "[]"] by (auto simp: GET_def)
  have leading: "code = cs" if "tok_value (relation q) = CHR ''!'' # cs" for cs
    using that assms(2) by simp
  have none: "replaceFirst (\<lambda>c. c = CHR ''!'') s = s" if "CHR ''!'' \<notin> set s" for s
    using that by (induction s) auto
  show ?thesis
    using simple first right anywhere endpoint endpoint' leading none assms(2) by blast
qed

lemma catalog_miss_throws_example:
  "parseQuery ''lion r_unknown animal''
     = Inr (SimpleQueryNode
              (createSimpleQuery (createToken ENTITY ''lion'' 0)
                 (createToken RELATION ''r_unknown'' 5) (createToken ENTITY ''animal'' 15)
                 None None False))
   \<and> GET (isaWorld []) (Some ''lion r_unknown animal'')
       = Failure (''Relation '' @ [CHR 0x22] @ ''r_unknown'' @ [CHR 0x22] @ '' not recognized'')
           [] EmptyObject ''lion r_unknown animal''"
proof -
  define q where
    "q = createSimpleQuery (createToken ENTITY ''lion'' 0) (createToken RELATION ''r_unknown'' 5)
           (createToken ENTITY ''animal'' 15) None None False"
  have a: "parseQuery ''lion r_unknown animal'' = Inr (SimpleQueryNode q)"
    unfolding q_def by code_simp
  have h1: "grepRegex (isaWorld []) q = Inr None"
    by (simp add: q_def createSimpleQuery_def grepRegex_def)
  have h2: "''r_unknown'' = replaceFirst (\<lambda>c. c = CHR ''!'') (tok_value (relation q))"
    by (simp add: q_def createSimpleQuery_def createToken_def)
  have h3: "find (\<lambda>v. entry_code v = ''r_unknown'') (relationsData (isaWorld [])) = None"
    by (simp add: isaWorld_def)
  have b: "GET (isaWorld []) (Some ''lion r_unknown animal'')
       = Failure (''Relation '' @ [CHR 0x22] @ ''r_unknown'' @ [CHR 0x22] @ '' not recognized'')
           [] EmptyObject ''lion r_unknown animal''"
    using catalog_miss_throws [OF h1 h2 h3 refl, of "[]"] a by simp
  from a b show ?thesis unfolding q_def by (intro conjI)
qed

lemma evaluateQuery_left_error:
  "evaluateQuery w l existingVariables = Inl e
   \<Longrightarrow> evaluateQuery w (CompoundQuery l operator r) existingVariables = Inl e"
  by simp

text \<open>
  C8. A clause whose relation code is unknown fails hard, and the endpoint answers with the
  message, no bindings and the empty result object: \<open>lion r_unknown animal\<close> fails with
  \<open>Relation "r_unknown" not recognized\<close>, and so does a query that holds such a clause
  between two others. But the negation marker is not stripped as a leading marker: the
  evaluator removes the first \<open>!\<close> of the token text wherever it stands, while the
  parser reads the negation off the start of the text. The lexer reads \<open>r_is!a\<close> as one
  relation token, not negated; the catalog has no entry \<open>r_is!a\<close>; yet the query
  \<open>$x r_is!a mammal\<close> does not fail: it is evaluated as \<open>r_isa\<close> and answers with the
  lion.
\<close>

theorem relation_code_inner_marker:
  "parseQuery ''$x r_is!a mammal''
     = Inr (SimpleQueryNode
              (createSimpleQuery (createToken VARIABLE ''$x'' 0) (createToken RELATION ''r_is!a'' 3)
                 (createToken ENTITY ''mammal'' 10) None None False))
   \<and> find (\<lambda>v. entry_code v = ''r_is!a'') (relationsData (isaWorld [(''mammal'', [''lion''])]))
       = None
   \<and> GET (isaWorld [(''mammal'', [''lion''])]) (Some ''$x r_is!a mammal'')
       = Answer ''$x r_is!a mammal'' [\<lparr>var_name = ''$x'', var_value = [Some ''lion'']\<rparr>]
           (Rows [Some ''lion'']) ''$x r_is!a mammal''
   \<and> GET (isaWorld [(''mammal'', [''lion''])]) (Some ''lion r_unknown animal'')
       = Failure (''Relation '' @ [CHR 0x22] @ ''r_unknown'' @ [CHR 0x22] @ '' not recognized'')
           [] EmptyObject ''lion r_unknown animal''
   \<and> GET (isaWorld [(''mammal'', [''lion''])])
         (Some ''$x r_isa mammal AND $x r_unknown bird OR $x r_isa fish'')
       = Failure (''Relation '' @ [CHR 0x22] @ ''r_unknown'' @ [CHR 0x22] @ '' not recognized'')
           [] EmptyObject ''$x r_isa mammal AND $x r_unknown bird OR $x r_isa fish''"
proof -
  have a: "parseQuery ''$x r_is!a mammal''
     = Inr (SimpleQueryNode
              (createSimpleQuery (createToken VARIABLE ''$x'' 0) (createToken RELATION ''r_is!a'' 3)
                 (createToken ENTITY ''mammal'' 10) None None False))"
    by code_simp
  have b: "find (\<lambda>v. entry_code v = ''r_is!a'') (relationsData (isaWorld [(''mammal'', [''lion''])]))
       = None"
    by (simp add: isaWorld_def)
  have c: "GET (isaWorld [(''mammal'', [''lion''])]) (Some ''$x r_is!a mammal'')
       = Answer ''$x r_is!a mammal'' [\<lparr>var_name = ''$x'', var_value = [Some ''lion'']\<rparr>]
           (Rows [Some ''lion'']) ''$x r_is!a mammal''"
    by code_simp
  have d: "GET (isaWorld [(''mammal'', [''lion''])]) (Some ''lion r_unknown animal'')
       = Failure (''Relation '' @ [CHR 0x22] @ ''r_unknown'' @ [CHR 0x22] @ '' not recognized'')
           [] EmptyObject ''lion r_unknown animal''"
    by code_simp
  have e: "GET (isaWorld [(''mammal'', [''lion''])])
         (Some ''$x r_isa mammal AND $x r_unknown bird OR $x r_isa fish'')
       = Failure (''Relation '' @ [CHR 0x22] @ ''r_unknown'' @ [CHR 0x22] @ '' not recognized'')
           [] EmptyObject ''$x r_isa mammal AND $x r_unknown bird OR $x r_isa fish''"
    by code_simp
  from a b c d e show ?thesis by (intro conjI)
qed

end
